theory Spec2Isabelle
  imports Complex_Main "HOL-Library.Multiset"
begin

section \<open>The BackProjector of liblion: data model\<close>

text \<open>
  The class \<open>BackProjector\<close> of \<open>src/backprojector.h\<close> extends \<open>Projector\<close>.
  The header under verification defines the constructor, the assignment operator,
  \<open>set2DFourierTransform\<close> and the four \<open>decenter\<close> helpers inline; the remaining
  member functions are only declared there.

  \<open>DOUBLE\<close> values are idealised as \<open>real\<close> and \<open>Complex\<close> values as \<open>complex\<close>:
  rounding of floating-point arithmetic is not part of this model.
\<close>

subsection \<open>MultidimArray\<close>

text \<open>
  A \<open>MultidimArray<T>\<close> is a flat buffer together with its shape and the logical index
  of its first element. Only the three spatial dimensions are used by the code below.
  The payload of the C++ class is called \<open>data\<close>; it is called \<open>vals\<close> here because
  \<open>data\<close> is also the name of the Fourier grid of the projector.
\<close>

record 'a MultidimArray =
  xdim :: nat
  ydim :: nat
  zdim :: nat
  xinit :: int
  yinit :: int
  zinit :: int
  vals :: "'a list"

subsection \<open>The object state\<close>

text \<open>
  The fields of \<open>Projector\<close> that the header reads or writes, followed by the three
  fields \<open>BackProjector\<close> adds. The classes \<open>TabFtBlob\<close> and \<open>SymList\<close> are defined
  elsewhere; their states are type parameters.
\<close>

record ('tab, 'sym) BackProjector =
  data :: "complex MultidimArray"
  ori_size :: int
  pad_size :: int
  r_max :: int
  r_min_nn :: int
  interpolator :: int
  padding_factor :: int
  ref_dim :: int
  data_dim :: int
  weight :: "real MultidimArray"
  tab_ftblob :: 'tab
  SL :: 'sym

subsection \<open>Errors\<close>

text \<open>
  Modelled from the spec: the macro \<open>REPORT_ERROR\<close> is defined in a header that is not
  among the sources. The spec calls the error of a dimension mismatch "fatal, surfaced
  to caller", and says that "fatal errors abort the current call": \<open>REPORT_ERROR(msg)\<close>
  throws an exception carrying the message, and the statements after it do not run.

  \<open>OutOfBounds\<close> stands for an access outside the buffer of a \<open>MultidimArray\<close>, which
  the unchecked access macros of the C++ code leave undefined.
\<close>

datatype error = RelionError string | OutOfBounds

text \<open>
  A member function that may throw returns either the error together with the object
  state at the moment of the throw (the object outlives the exception), or the updated
  object state.
\<close>

type_synonym 's outcome = "(error \<times> 's) + 's"

section \<open>The constructor\<close>

text \<open>
  Modelled from the spec: the macro \<open>TRILINEAR\<close> is defined in \<open>src/projector.h\<close>, which
  is not among the sources. The spec lists the interpolators \<open>NEAREST\<close> and \<open>TRILINEAR\<close>;
  they are numbered in that order.
\<close>

definition NEAREST_NEIGHBOUR :: int where
  "NEAREST_NEIGHBOUR = 0"

definition TRILINEAR :: int where
  "TRILINEAR = 1"

text \<open>
  A C++ default argument: the caller either passes a value or leaves the argument out,
  and then the default written in the signature is passed.
\<close>

definition default_arg :: "'a \<Rightarrow> 'a option \<Rightarrow> 'a" where
  "default_arg d a = (case a of None \<Rightarrow> d | Some v \<Rightarrow> v)"

text \<open>
  \<open>BackProjector(_ori_size, _ref_dim, fn_sym, _interpolator = TRILINEAR,
  _padding_factor_3d = 2, _r_min_nn = 10, _blob_order = 0, _blob_radius = 1.9,
  _blob_alpha = 15, _data_dim = 2)\<close>.

  The member functions \<open>SymList::read_sym_file\<close> and \<open>TabFtBlob::initialise\<close> are not
  among the sources; they are parameters, each a function from its arguments and the
  member's state to the member's new state. \<open>this0\<close> is the object as the default
  constructors of the base class and of the members leave it. The statements are in
  the order of the source.
\<close>

definition BackProjector_ctor ::
  "(string \<Rightarrow> 'sym \<Rightarrow> 'sym) \<Rightarrow> (real \<Rightarrow> real \<Rightarrow> int \<Rightarrow> int \<Rightarrow> 'tab \<Rightarrow> 'tab) \<Rightarrow>
   ('tab, 'sym) BackProjector \<Rightarrow>
   int \<Rightarrow> int \<Rightarrow> string \<Rightarrow> int option \<Rightarrow> int option \<Rightarrow> int option \<Rightarrow> int option \<Rightarrow>
   real option \<Rightarrow> real option \<Rightarrow> int option \<Rightarrow> ('tab, 'sym) BackProjector" where
  "BackProjector_ctor read_sym_file initialise this0
     ori_size' ref_dim' fn_sym interpolator' padding_factor_3d' r_min_nn'
     blob_order' blob_radius' blob_alpha' data_dim' =
   (let interpolator_arg = default_arg TRILINEAR interpolator';
        padding_factor_3d_arg = default_arg 2 padding_factor_3d';
        r_min_nn_arg = default_arg 10 r_min_nn';
        blob_order_arg = default_arg 0 blob_order';
        blob_radius_arg = default_arg 1.9 blob_radius';
        blob_alpha_arg = default_arg 15 blob_alpha';
        data_dim_arg = default_arg 2 data_dim';
        this1 = this0\<lparr>ori_size := ori_size'\<rparr>;
        this2 = this1\<lparr>ref_dim := ref_dim'\<rparr>;
        this3 = this2\<lparr>data_dim := data_dim_arg\<rparr>;
        this4 = this3\<lparr>SL := read_sym_file fn_sym (SL this3)\<rparr>;
        this5 = this4\<lparr>padding_factor := padding_factor_3d_arg\<rparr>;
        this6 = this5\<lparr>interpolator := interpolator_arg\<rparr>;
        this7 = this6\<lparr>r_min_nn := r_min_nn_arg\<rparr>
    in this7\<lparr>tab_ftblob :=
         initialise (blob_radius_arg * real_of_int (padding_factor this7))
           blob_alpha_arg blob_order_arg 10000 (tab_ftblob this7)\<rparr>)"

section \<open>Assignment\<close>

text \<open>
  \<open>operator=\<close> compares the address of its argument with \<open>this\<close>, so the model has
  a store of objects indexed by address. The operator returns \<open>*this\<close>, here the address
  \<open>this\<close> and the new store.

  Modelled from the spec: the assignment operators of the member classes
  (\<open>MultidimArray\<close>, \<open>TabFtBlob\<close>, \<open>SymList\<close>) are not among the sources. The spec calls
  the assignment of the grids an "implicit deep copy": after a member assignment the
  member of the target has the value of the member of the source.
\<close>

definition assign ::
  "('addr \<Rightarrow> ('tab, 'sym) BackProjector) \<Rightarrow> 'addr \<Rightarrow> 'addr \<Rightarrow>
   'addr \<times> ('addr \<Rightarrow> ('tab, 'sym) BackProjector)" where
  "assign store this op =
   (if op \<noteq> this then
      (let s1 = store(this := (store this)\<lparr>data := data (store op)\<rparr>);
           s2 = s1(this := (s1 this)\<lparr>ori_size := ori_size (s1 op)\<rparr>);
           s3 = s2(this := (s2 this)\<lparr>pad_size := pad_size (s2 op)\<rparr>);
           s4 = s3(this := (s3 this)\<lparr>r_max := r_max (s3 op)\<rparr>);
           s5 = s4(this := (s4 this)\<lparr>r_min_nn := r_min_nn (s4 op)\<rparr>);
           s6 = s5(this := (s5 this)\<lparr>interpolator := interpolator (s5 op)\<rparr>);
           s7 = s6(this := (s6 this)\<lparr>padding_factor := padding_factor (s6 op)\<rparr>);
           s8 = s7(this := (s7 this)\<lparr>ref_dim := ref_dim (s7 op)\<rparr>);
           s9 = s8(this := (s8 this)\<lparr>data_dim := data_dim (s8 op)\<rparr>);
           s10 = s9(this := (s9 this)\<lparr>weight := weight (s9 op)\<rparr>);
           s11 = s10(this := (s10 this)\<lparr>tab_ftblob := tab_ftblob (s10 op)\<rparr>);
           s12 = s11(this := (s11 this)\<lparr>SL := SL (s11 op)\<rparr>)
       in (this, s12))
    else (this, store))"

section \<open>set2DFourierTransform\<close>

text \<open>
  \<open>MultidimArray::getDim\<close> and the three insertion routines \<open>backrotate2D\<close>,
  \<open>backrotate3D\<close> and \<open>backproject\<close> are declared but not defined in the header: they
  are parameters. An insertion routine takes the image, the matrix, the flag, the
  optional weight map (a pointer that may be \<open>NULL\<close>) and the object, and returns an
  outcome. The branches are those of the source, in its order.
\<close>

type_synonym ('img, 'mat, 'w, 's) insertion =
  "'img \<Rightarrow> 'mat \<Rightarrow> bool \<Rightarrow> 'w option \<Rightarrow> 's \<Rightarrow> 's outcome"

definition set2DFourierTransform ::
  "('img \<Rightarrow> int) \<Rightarrow>
   ('img, 'mat, 'w, ('tab, 'sym) BackProjector) insertion \<Rightarrow>
   ('img, 'mat, 'w, ('tab, 'sym) BackProjector) insertion \<Rightarrow>
   ('img, 'mat, 'w, ('tab, 'sym) BackProjector) insertion \<Rightarrow>
   'img \<Rightarrow> 'mat \<Rightarrow> bool \<Rightarrow> 'w option \<Rightarrow> ('tab, 'sym) BackProjector \<Rightarrow>
   ('tab, 'sym) BackProjector outcome" where
  "set2DFourierTransform getDim backrotate2D backrotate3D backproject img_in A inv' Mweight this =
   (if getDim img_in = 3 then
      (if ref_dim this \<noteq> 3 then
         Inl (RelionError
           ''Backprojector::set3DFourierTransform%%ERROR: Dimension of the data array should be 3'',
           this)
       else backrotate3D img_in A inv' Mweight this)
    else if ref_dim this = 2 then backrotate2D img_in A inv' Mweight this
    else if ref_dim this = 3 then backproject img_in A inv' Mweight this
    else Inl (RelionError
           ''Backprojector::set2DSlice%%ERROR: Dimension of the data array should be 2 or 3'',
           this))"

section \<open>Array access and the loop over an FFTW transform\<close>

text \<open>
  Modelled from the spec: the macros \<open>DIRECT_A3D_ELEM\<close>, \<open>A3D_ELEM\<close> and
  \<open>FOR_ALL_ELEMENTS_IN_FFTW_TRANSFORM\<close> and the method \<open>MultidimArray::initZeros\<close> are
  defined in headers that are not among the sources. The spec addresses a grid "by
  signed logical frequencies \<open>(kp, ip, jp)\<close>" with \<open>jp \<ge> 0\<close>, and calls the target of the
  decenter helpers the FFT layout; the header calls it "FFTW-uncentered". There the
  frequencies of an axis of size \<open>n\<close> are stored in the order \<open>0, 1, ...\<close> followed by the
  negative ones, \<open>... , -2, -1\<close>, and the \<open>x\<close> axis holds the non-negative half only.
  The theorems about the decenter helpers do not depend on the formula of the
  frequencies: their proofs leave \<open>fftw_freq\<close> folded.

  \<open>DIRECT_A3D_ELEM(V, k, i, j)\<close> is the element at offset \<open>k * YXSIZE + i * XSIZE + j\<close> of
  the buffer, with no check of the indices; \<open>A3D_ELEM(V, k, i, j)\<close> subtracts the logical
  index of the first element. An offset outside the buffer is the error \<open>OutOfBounds\<close>.
  The indices and the radius test are computed in \<open>int\<close>: the model does not cover
  arrays so large that \<open>kp*kp + ip*ip + jp*jp\<close> overflows the type of the loop variables.
\<close>

definition direct_offset :: "'a MultidimArray \<Rightarrow> int \<Rightarrow> int \<Rightarrow> int \<Rightarrow> int" where
  "direct_offset V k i j = k * (int (ydim V) * int (xdim V)) + i * int (xdim V) + j"

definition DIRECT_A3D_ELEM :: "'a MultidimArray \<Rightarrow> int \<Rightarrow> int \<Rightarrow> int \<Rightarrow> error + 'a" where
  "DIRECT_A3D_ELEM V k i j =
   (let n = direct_offset V k i j
    in if 0 \<le> n \<and> n < int (length (vals V)) then Inr (vals V ! nat n) else Inl OutOfBounds)"

definition A3D_ELEM :: "'a MultidimArray \<Rightarrow> int \<Rightarrow> int \<Rightarrow> int \<Rightarrow> error + 'a" where
  "A3D_ELEM V k i j = DIRECT_A3D_ELEM V (k - zinit V) (i - yinit V) (j - xinit V)"

text \<open>The assignment \<open>DIRECT_A3D_ELEM(V, k, i, j) = x\<close>.\<close>

definition set_DIRECT_A3D_ELEM ::
  "'a MultidimArray \<Rightarrow> int \<Rightarrow> int \<Rightarrow> int \<Rightarrow> 'a \<Rightarrow> error + 'a MultidimArray" where
  "set_DIRECT_A3D_ELEM V k i j x =
   (let n = direct_offset V k i j
    in if 0 \<le> n \<and> n < int (length (vals V)) then Inr (V\<lparr>vals := (vals V)[nat n := x]\<rparr>)
       else Inl OutOfBounds)"

text \<open>\<open>initZeros()\<close> keeps the shape and sets every element to zero.\<close>

definition initZeros :: "('a::zero) MultidimArray \<Rightarrow> 'a MultidimArray" where
  "initZeros V = V\<lparr>vals := map (\<lambda>_. 0) (vals V)\<rparr>"

text \<open>
  The logical frequency of the physical index \<open>k\<close> on an axis of size \<open>n\<close>, in a
  transform whose \<open>x\<close> axis has size \<open>xsize\<close>: \<open>(k < XSIZE(V)) ? k : k - n\<close>.
\<close>

definition fftw_freq :: "nat \<Rightarrow> nat \<Rightarrow> nat \<Rightarrow> int" where
  "fftw_freq xsize n k = (if k < xsize then int k else int k - int n)"

text \<open>
  The physical indices \<open>(k, i, j)\<close> in the order of the three nested loops: \<open>k\<close> outermost,
  \<open>j\<close> innermost.
\<close>

definition fftw_elements :: "'a MultidimArray \<Rightarrow> (nat \<times> nat \<times> nat) list" where
  "fftw_elements V =
   concat (map (\<lambda>k. concat (map (\<lambda>i. map (\<lambda>j. (k, i, j)) [0..<xdim V]) [0..<ydim V]))
     [0..<zdim V])"

text \<open>A loop whose body may fail: the first failure ends the loop.\<close>

primrec for_each :: "('e \<Rightarrow> 's \<Rightarrow> error + 's) \<Rightarrow> 'e list \<Rightarrow> 's \<Rightarrow> error + 's" where
  "for_each body [] s = Inr s"
| "for_each body (e # es) s =
     (case body e s of Inl err \<Rightarrow> Inl err | Inr s' \<Rightarrow> for_each body es s')"

text \<open>
  \<open>FOR_ALL_ELEMENTS_IN_FFTW_TRANSFORM(V) { body }\<close>: the body sees the physical indices
  \<open>k, i, j\<close> and the logical frequencies \<open>kp, ip, jp\<close>, where \<open>jp = j\<close>.
\<close>

definition FOR_ALL_ELEMENTS_IN_FFTW_TRANSFORM ::
  "'a MultidimArray \<Rightarrow> (nat \<Rightarrow> nat \<Rightarrow> nat \<Rightarrow> int \<Rightarrow> int \<Rightarrow> int \<Rightarrow> 's \<Rightarrow> error + 's) \<Rightarrow> 's \<Rightarrow>
   error + 's" where
  "FOR_ALL_ELEMENTS_IN_FFTW_TRANSFORM V body s =
   for_each
     (\<lambda>(k, i, j). body k i j (fftw_freq (xdim V) (zdim V) k) (fftw_freq (xdim V) (ydim V) i) (int j))
     (fftw_elements V) s"

section \<open>The decenter helpers\<close>

text \<open>
  The four helpers of the header, each from its own source text. The element types
  \<open>float\<close> and \<open>double\<close> are type parameters; the cast \<open>(double)\<close> of \<open>decenter_fd\<close> and
  the implicit conversion from \<open>double\<close> to \<open>float\<close> of the second \<open>decenter_ff\<close> are
  parameters too. The two overloads of \<open>decenter_ff\<close> are told apart by a suffix.

  Every helper takes \<open>Min\<close> and \<open>Mout\<close> by reference. In \<open>decenter_fd\<close> and in the second
  \<open>decenter_ff\<close> the two arrays have different element types, so they are different
  objects: \<open>Min\<close> is only read, and the helper is a function of the two arrays that
  returns the new \<open>Mout\<close>. In the first \<open>decenter_ff\<close> and in \<open>decenter_cc\<close> the two
  references have one type and may denote one object, which \<open>Mout.initZeros()\<close> then
  clears before it is read. These two helpers work on a store of arrays indexed by
  address, \<open>Min\<close> and \<open>Mout\<close> are addresses, and every read and write goes through the
  current store. Arrays at different addresses own different buffers.
\<close>

definition decenter_fd ::
  "('f \<Rightarrow> 'd) \<Rightarrow> 'f MultidimArray \<Rightarrow> ('d::zero) MultidimArray \<Rightarrow> int \<Rightarrow> error + 'd MultidimArray" where
  "decenter_fd to_double Min' Mout my_rmax2 =
   (let Mout0 = initZeros Mout
    in FOR_ALL_ELEMENTS_IN_FFTW_TRANSFORM Mout0
         (\<lambda>k i j kp ip jp M.
            if kp * kp + ip * ip + jp * jp \<le> my_rmax2 then
              (case A3D_ELEM Min' kp ip jp of
                 Inl err \<Rightarrow> Inl err
               | Inr v \<Rightarrow> set_DIRECT_A3D_ELEM M (int k) (int i) (int j) (to_double v))
            else Inr M)
         Mout0)"

definition decenter_ff_double ::
  "('addr \<Rightarrow> ('d::zero) MultidimArray) \<Rightarrow> 'addr \<Rightarrow> 'addr \<Rightarrow> int \<Rightarrow>
   error + ('addr \<Rightarrow> 'd MultidimArray)" where
  "decenter_ff_double store Min' Mout my_rmax2 =
   (let store0 = store(Mout := initZeros (store Mout))
    in FOR_ALL_ELEMENTS_IN_FFTW_TRANSFORM (store0 Mout)
         (\<lambda>k i j kp ip jp s.
            if kp * kp + ip * ip + jp * jp \<le> my_rmax2 then
              (case A3D_ELEM (s Min') kp ip jp of
                 Inl err \<Rightarrow> Inl err
               | Inr v \<Rightarrow>
                   (case set_DIRECT_A3D_ELEM (s Mout) (int k) (int i) (int j) v of
                      Inl err \<Rightarrow> Inl err
                    | Inr M \<Rightarrow> Inr (s(Mout := M))))
            else Inr s)
         store0)"

definition decenter_ff_float ::
  "('d \<Rightarrow> 'f) \<Rightarrow> 'd MultidimArray \<Rightarrow> ('f::zero) MultidimArray \<Rightarrow> int \<Rightarrow> error + 'f MultidimArray" where
  "decenter_ff_float to_float Min' Mout my_rmax2 =
   (let Mout0 = initZeros Mout
    in FOR_ALL_ELEMENTS_IN_FFTW_TRANSFORM Mout0
         (\<lambda>k i j kp ip jp M.
            if kp * kp + ip * ip + jp * jp \<le> my_rmax2 then
              (case A3D_ELEM Min' kp ip jp of
                 Inl err \<Rightarrow> Inl err
               | Inr v \<Rightarrow> set_DIRECT_A3D_ELEM M (int k) (int i) (int j) (to_float v))
            else Inr M)
         Mout0)"

definition decenter_cc ::
  "('addr \<Rightarrow> complex MultidimArray) \<Rightarrow> 'addr \<Rightarrow> 'addr \<Rightarrow> int \<Rightarrow>
   error + ('addr \<Rightarrow> complex MultidimArray)" where
  "decenter_cc store Min' Mout my_rmax2 =
   (let store0 = store(Mout := initZeros (store Mout))
    in FOR_ALL_ELEMENTS_IN_FFTW_TRANSFORM (store0 Mout)
         (\<lambda>k i j kp ip jp s.
            if kp * kp + ip * ip + jp * jp \<le> my_rmax2 then
              (case A3D_ELEM (s Min') kp ip jp of
                 Inl err \<Rightarrow> Inl err
               | Inr v \<Rightarrow>
                   (case set_DIRECT_A3D_ELEM (s Mout) (int k) (int i) (int j) v of
                      Inl err \<Rightarrow> Inl err
                    | Inr M \<Rightarrow> Inr (s(Mout := M))))
            else Inr s)
         store0)"

text \<open>
  The design note of the spec: "express once as a generic gridded-to-FFT-layout copy
  parameterised by element type and a numeric conversion". The copy is written here as
  one expression, not as a loop: the output has the shape of \<open>Mout\<close>, and its buffer lists,
  in row-major order, the converted input element at the logical frequency of each
  position inside the radius and zero outside. It fails when an element inside the
  radius is outside the buffer of the input. The copy is a function of an input array
  and a separate output array; \<open>in_store\<close> puts its result at the address of the output.
\<close>

definition fftw_frequencies :: "'a MultidimArray \<Rightarrow> (int \<times> int \<times> int) list" where
  "fftw_frequencies V =
   map (\<lambda>(k, i, j). (fftw_freq (xdim V) (zdim V) k, fftw_freq (xdim V) (ydim V) i, int j))
     (fftw_elements V)"

definition inside :: "int \<Rightarrow> int \<times> int \<times> int \<Rightarrow> bool" where
  "inside rmax2 f = (case f of (kp, ip, jp) \<Rightarrow> kp * kp + ip * ip + jp * jp \<le> rmax2)"

definition readable :: "'a MultidimArray \<Rightarrow> int \<times> int \<times> int \<Rightarrow> bool" where
  "readable V f = (case f of (kp, ip, jp) \<Rightarrow> \<not> isl (A3D_ELEM V kp ip jp))"

definition copied_element ::
  "('a \<Rightarrow> 'b::zero) \<Rightarrow> 'a MultidimArray \<Rightarrow> int \<Rightarrow> int \<times> int \<times> int \<Rightarrow> 'b" where
  "copied_element conv Min' rmax2 f =
   (case f of (kp, ip, jp) \<Rightarrow>
      if inside rmax2 (kp, ip, jp) then
        (case A3D_ELEM Min' kp ip jp of Inl err \<Rightarrow> 0 | Inr v \<Rightarrow> conv v)
      else 0)"

definition gridded_to_fft_copy ::
  "('a \<Rightarrow> 'b) \<Rightarrow> 'a MultidimArray \<Rightarrow> ('b::zero) MultidimArray \<Rightarrow> int \<Rightarrow> error + 'b MultidimArray" where
  "gridded_to_fft_copy conv Min' Mout rmax2 =
   (if list_all (readable Min') (filter (inside rmax2) (fftw_frequencies Mout)) then
      Inr (Mout\<lparr>vals := map (copied_element conv Min' rmax2) (fftw_frequencies Mout)\<rparr>)
    else Inl OutOfBounds)"

definition in_store ::
  "('addr \<Rightarrow> 'a MultidimArray) \<Rightarrow> 'addr \<Rightarrow> error + 'a MultidimArray \<Rightarrow>
   error + ('addr \<Rightarrow> 'a MultidimArray)" where
  "in_store store Mout res =
   (case res of Inl err \<Rightarrow> Inl err | Inr M \<Rightarrow> Inr (store(Mout := M)))"

text \<open>The class invariant of \<open>MultidimArray\<close>: the buffer holds one element per index.\<close>

definition well_formed :: "'a MultidimArray \<Rightarrow> bool" where
  "well_formed V = (length (vals V) = zdim V * ydim V * xdim V)"

text \<open>
  The logical index box of an array, and the element at a logical frequency, which
  exists only inside the box. An input array covers the call when every frequency of
  the output inside the radius is in its box: the helpers are written for such inputs,
  the data grid of the projector reaching past \<open>r_max\<close> on every axis.
\<close>

definition in_box :: "'a MultidimArray \<Rightarrow> int \<times> int \<times> int \<Rightarrow> bool" where
  "in_box V f =
   (case f of (kp, ip, jp) \<Rightarrow>
      zinit V \<le> kp \<and> kp < zinit V + int (zdim V) \<and>
      yinit V \<le> ip \<and> ip < yinit V + int (ydim V) \<and>
      xinit V \<le> jp \<and> jp < xinit V + int (xdim V))"

definition logical_elem :: "'a MultidimArray \<Rightarrow> int \<times> int \<times> int \<Rightarrow> 'a option" where
  "logical_elem V f =
   (case f of (kp, ip, jp) \<Rightarrow>
      if in_box V f
      then Some (vals V ! (nat (kp - zinit V) * (ydim V * xdim V)
                           + nat (ip - yinit V) * xdim V + nat (jp - xinit V)))
      else None)"

definition covers :: "'a MultidimArray \<Rightarrow> 'b MultidimArray \<Rightarrow> int \<Rightarrow> bool" where
  "covers Min' Mout rmax2 =
   list_all (in_box Min') (filter (inside rmax2) (fftw_frequencies Mout))"

definition same_shape :: "'a MultidimArray \<Rightarrow> 'b MultidimArray \<Rightarrow> bool" where
  "same_shape M V = (xdim M = xdim V \<and> ydim M = ydim V \<and> zdim M = zdim V)"

text \<open>
  What a decenter call promises about the element of the output \<open>M\<close> at the physical
  index \<open>(k, i, j)\<close>, whose logical frequency is \<open>(kp, ip, jp)\<close>: it is zero when
  \<open>kp\<^sup>2 + ip\<^sup>2 + jp\<^sup>2 > my_rmax2\<close>, and otherwise the input has an element at that
  logical frequency and the output element is that element, converted to the output's
  element type.
\<close>

definition decentered_at ::
  "('a \<Rightarrow> 'b::zero) \<Rightarrow> 'a MultidimArray \<Rightarrow> int \<Rightarrow> 'b MultidimArray \<Rightarrow> nat \<Rightarrow> nat \<Rightarrow> nat \<Rightarrow> bool" where
  "decentered_at conv Min' my_rmax2 M k i j =
   (let kp = fftw_freq (xdim M) (zdim M) k; ip = fftw_freq (xdim M) (ydim M) i; jp = int j
    in if kp * kp + ip * ip + jp * jp > my_rmax2 then
         DIRECT_A3D_ELEM M (int k) (int i) (int j) = Inr 0
       else (case logical_elem Min' (kp, ip, jp) of
               None \<Rightarrow> False
             | Some v \<Rightarrow> DIRECT_A3D_ELEM M (int k) (int i) (int j) = Inr (conv v)))"

subsection \<open>Auxiliary definitions for the proofs about the loop\<close>

text \<open>The physical index of the buffer offset \<open>q\<close>, and its logical frequency.\<close>

definition unflat :: "'a MultidimArray \<Rightarrow> nat \<Rightarrow> nat \<times> nat \<times> nat" where
  "unflat V q =
   (q div (ydim V * xdim V), (q mod (ydim V * xdim V)) div xdim V,
    (q mod (ydim V * xdim V)) mod xdim V)"

definition freq_of :: "'a MultidimArray \<Rightarrow> nat \<Rightarrow> int \<times> int \<times> int" where
  "freq_of V q =
   (case unflat V q of (k, i, j) \<Rightarrow>
      (fftw_freq (xdim V) (zdim V) k, fftw_freq (xdim V) (ydim V) i, int j))"

text \<open>The body of the loop of a decenter helper, at the buffer offset \<open>q\<close>.\<close>

definition step_at ::
  "('a \<Rightarrow> 'b) \<Rightarrow> 'a MultidimArray \<Rightarrow> int \<Rightarrow> 'b MultidimArray \<Rightarrow> nat \<Rightarrow> 'b MultidimArray \<Rightarrow>
   error + 'b MultidimArray" where
  "step_at conv Min' r V q M =
   (case unflat V q of (k, i, j) \<Rightarrow>
      (\<lambda>kp ip jp.
         if kp * kp + ip * ip + jp * jp \<le> r then
           (case A3D_ELEM Min' kp ip jp of
              Inl err \<Rightarrow> Inl err
            | Inr v \<Rightarrow> set_DIRECT_A3D_ELEM M (int k) (int i) (int j) (conv v))
         else Inr M)
        (fftw_freq (xdim V) (zdim V) k) (fftw_freq (xdim V) (ydim V) i) (int j))"

text \<open>The promise about an output element, with the read as the loop performs it.\<close>

definition copied_at ::
  "('a \<Rightarrow> 'b::zero) \<Rightarrow> 'a MultidimArray \<Rightarrow> int \<Rightarrow> 'b MultidimArray \<Rightarrow> nat \<Rightarrow> nat \<Rightarrow> nat \<Rightarrow> bool" where
  "copied_at conv Min' my_rmax2 M k i j =
   (let kp = fftw_freq (xdim M) (zdim M) k; ip = fftw_freq (xdim M) (ydim M) i; jp = int j
    in if kp * kp + ip * ip + jp * jp > my_rmax2 then
         DIRECT_A3D_ELEM M (int k) (int i) (int j) = Inr 0
       else (case A3D_ELEM Min' kp ip jp of
               Inl err \<Rightarrow> False
             | Inr v \<Rightarrow> DIRECT_A3D_ELEM M (int k) (int i) (int j) = Inr (conv v)))"

text \<open>The buffer after the loop has visited the offsets \<open>qs\<close>.\<close>

primrec fill :: "(nat \<Rightarrow> bool) \<Rightarrow> (nat \<Rightarrow> 'b) \<Rightarrow> nat list \<Rightarrow> 'b list \<Rightarrow> 'b list" where
  "fill live val [] xs = xs"
| "fill live val (q # qs) xs = fill live val qs (if live q then xs[q := val q] else xs)"

section \<open>The Fourier grid of the spec\<close>

text \<open>
  The member functions \<open>enforceHermitianSymmetry\<close>, \<open>symmetrise\<close> and \<open>backproject\<close> are
  declared in the header and defined in a file that is not among the sources. They are
  modelled from the spec, on the spec's own data model: a grid is "addressed by signed
  logical frequencies \<open>(kp, ip, jp)\<close>", the data grid is complex and the weight grid is
  real. A grid is a function of the voxel \<open>(kp, ip, jp)\<close> here; the index range
  \<open>[-pad_size/2, pad_size/2)\<close> of the spec bounds the loops, with \<open>side\<close> for \<open>pad_size\<close>.
\<close>

type_synonym voxel = "int \<times> int \<times> int"

type_synonym 'a grid = "voxel \<Rightarrow> 'a"

subsection \<open>enforceHermitianSymmetry\<close>

text \<open>
  Modelled from the spec: the body of \<open>BackProjector::enforceHermitianSymmetry\<close> is
  missing. The spec: "for every voxel with \<open>jp = 0\<close>, average \<open>D(kp,ip,0)\<close> with
  \<open>conj(D(-kp,-ip,0))\<close> and \<open>W(kp,ip,0)\<close> with \<open>W(-kp,-ip,0)\<close>; write the averaged value
  back to both sides."

  The model is a loop over the voxels of the plane \<open>jp = 0\<close>, each step reading the
  current grids and writing both sides in place. The side \<open>(-kp,-ip,0)\<close> of the data grid
  receives the conjugate of the average, which is the average as seen from that side.
\<close>

definition plane_voxels :: "int \<Rightarrow> (int \<times> int) list" where
  "plane_voxels side =
   concat (map (\<lambda>kp. map (\<lambda>ip. (kp, ip)) [- (side div 2) .. side div 2 - 1])
     [- (side div 2) .. side div 2 - 1])"

definition enforce_at ::
  "complex grid \<times> real grid \<Rightarrow> int \<times> int \<Rightarrow> complex grid \<times> real grid" where
  "enforce_at G p =
   (case G of (D, W) \<Rightarrow> case p of (kp, ip) \<Rightarrow>
      let d = (D (kp, ip, 0) + cnj (D (- kp, - ip, 0))) / 2;
          w = (W (kp, ip, 0) + W (- kp, - ip, 0)) / 2
      in (D((kp, ip, 0) := d, (- kp, - ip, 0) := cnj d),
          W((kp, ip, 0) := w, (- kp, - ip, 0) := w)))"

definition enforceHermitianSymmetry ::
  "int \<Rightarrow> complex grid \<times> real grid \<Rightarrow> complex grid \<times> real grid" where
  "enforceHermitianSymmetry side G = foldl enforce_at G (plane_voxels side)"

text \<open>
  For the proof: the voxels a loop over \<open>ps\<close> has written, and the averages of the
  grids of the call.
\<close>

definition touched :: "(int \<times> int) list \<Rightarrow> voxel \<Rightarrow> bool" where
  "touched ps v = (case v of (k, i, j) \<Rightarrow> j = 0 \<and> ((k, i) \<in> set ps \<or> (- k, - i) \<in> set ps))"

definition averagedD :: "complex grid \<Rightarrow> voxel \<Rightarrow> complex" where
  "averagedD D v = (case v of (k, i, j) \<Rightarrow> (D (k, i, 0) + cnj (D (- k, - i, 0))) / 2)"

definition averagedW :: "real grid \<Rightarrow> voxel \<Rightarrow> real" where
  "averagedW W v = (case v of (k, i, j) \<Rightarrow> (W (k, i, 0) + W (- k, - i, 0)) / 2)"

subsection \<open>Insertion of a slice\<close>

text \<open>
  Orientation matrices are 3 by 3 real matrices, given by their rows; a vector is
  \<open>(x, y, z)\<close>. The voxel of the point \<open>(x, y, z)\<close> is \<open>(kp, ip, jp) = (z, y, x)\<close>.
\<close>

type_synonym vec3 = "real \<times> real \<times> real"

type_synonym mat3 = "vec3 \<times> vec3 \<times> vec3"

definition mat_vec :: "mat3 \<Rightarrow> vec3 \<Rightarrow> vec3" where
  "mat_vec A v =
   (case A of ((a11, a12, a13), (a21, a22, a23), (a31, a32, a33)) \<Rightarrow>
    case v of (x, y, z) \<Rightarrow>
      (a11 * x + a12 * y + a13 * z, a21 * x + a22 * y + a23 * z, a31 * x + a32 * y + a33 * z))"

definition det3 :: "mat3 \<Rightarrow> real" where
  "det3 A =
   (case A of ((a11, a12, a13), (a21, a22, a23), (a31, a32, a33)) \<Rightarrow>
      a11 * (a22 * a33 - a23 * a32) - a12 * (a21 * a33 - a23 * a31)
      + a13 * (a21 * a32 - a22 * a31))"

text \<open>"A boolean \<open>inv\<close> (if true, use \<open>A\<^sup>-\<^sup>1\<close> instead of \<open>A\<close>)": the inverse by cofactors.\<close>

definition mat_inverse :: "mat3 \<Rightarrow> mat3" where
  "mat_inverse A =
   (case A of ((a11, a12, a13), (a21, a22, a23), (a31, a32, a33)) \<Rightarrow>
      let d = det3 A
      in (((a22 * a33 - a23 * a32) / d, (a13 * a32 - a12 * a33) / d, (a12 * a23 - a13 * a22) / d),
          ((a23 * a31 - a21 * a33) / d, (a11 * a33 - a13 * a31) / d, (a13 * a21 - a11 * a23) / d),
          ((a21 * a32 - a22 * a31) / d, (a12 * a31 - a11 * a32) / d, (a11 * a22 - a12 * a21) / d)))"

text \<open>The product and the transpose of matrices, to say that a list of rotations is a group.\<close>

definition mat_mul :: "mat3 \<Rightarrow> mat3 \<Rightarrow> mat3" where
  "mat_mul A B =
   (case A of ((a11, a12, a13), (a21, a22, a23), (a31, a32, a33)) \<Rightarrow>
    case B of ((b11, b12, b13), (b21, b22, b23), (b31, b32, b33)) \<Rightarrow>
      ((a11 * b11 + a12 * b21 + a13 * b31, a11 * b12 + a12 * b22 + a13 * b32,
        a11 * b13 + a12 * b23 + a13 * b33),
       (a21 * b11 + a22 * b21 + a23 * b31, a21 * b12 + a22 * b22 + a23 * b32,
        a21 * b13 + a22 * b23 + a23 * b33),
       (a31 * b11 + a32 * b21 + a33 * b31, a31 * b12 + a32 * b22 + a33 * b32,
        a31 * b13 + a32 * b23 + a33 * b33)))"

definition mat_transpose :: "mat3 \<Rightarrow> mat3" where
  "mat_transpose A =
   (case A of ((a11, a12, a13), (a21, a22, a23), (a31, a32, a33)) \<Rightarrow>
      ((a11, a21, a31), (a12, a22, a32), (a13, a23, a33)))"

text \<open>
  The geometry constants of the spec that insertion reads, and a source image: "a source
  Fourier image \<open>Fin\<close> (2D or 3D, half-Hermitian)", here 2D, with the list of its pixels
  \<open>(ip, jp)\<close> in the order of the loop ("row-major over \<open>Fin\<close>'s half-space") and the
  value at each pixel. A weight map \<open>Mw\<close> "of the same shape as \<open>Fin\<close>" is a function
  of the pixel.
\<close>

record geometry =
  g_r_max :: int
  g_padding_factor :: int
  g_r_min_nn :: int
  g_interpolator :: int

record fourier_image =
  pixels :: "(int \<times> int) list"
  pixel_value :: "int \<times> int \<Rightarrow> complex"

text \<open>
  The interpolation kernels of the spec, as the grid points a sample at the target
  frequency goes to, each with its share. \<open>NEAREST\<close>: "round \<open>f_tgt\<close> to the nearest grid
  point". \<open>TRILINEAR\<close>: "distribute \<open>v, w\<close> over the 8 surrounding grid points with
  trilinear weights \<open>(1-dx)(1-dy)(1-dz)\<close> etc."
\<close>

definition nearest_targets :: "vec3 \<Rightarrow> (voxel \<times> real) list" where
  "nearest_targets f = (case f of (x, y, z) \<Rightarrow> [((round z, round y, round x), 1)])"

definition trilinear_targets :: "vec3 \<Rightarrow> (voxel \<times> real) list" where
  "trilinear_targets f =
   (case f of (x, y, z) \<Rightarrow>
      let x0 = \<lfloor>x\<rfloor>; y0 = \<lfloor>y\<rfloor>; z0 = \<lfloor>z\<rfloor>;
          dx = x - of_int x0; dy = y - of_int y0; dz = z - of_int z0
      in [((z0, y0, x0), (1 - dz) * (1 - dy) * (1 - dx)),
          ((z0, y0, x0 + 1), (1 - dz) * (1 - dy) * dx),
          ((z0, y0 + 1, x0), (1 - dz) * dy * (1 - dx)),
          ((z0, y0 + 1, x0 + 1), (1 - dz) * dy * dx),
          ((z0 + 1, y0, x0), dz * (1 - dy) * (1 - dx)),
          ((z0 + 1, y0, x0 + 1), dz * (1 - dy) * dx),
          ((z0 + 1, y0 + 1, x0), dz * dy * (1 - dx)),
          ((z0 + 1, y0 + 1, x0 + 1), dz * dy * dx)])"

text \<open>
  Adding the share \<open>t\<close> of the value \<open>v\<close> and of the weight \<open>w\<close> at a grid point. "When a
  surrounding point has \<open>jp < 0\<close>, replace it by its Hermitian partner \<open>(-kp,-ip,-jp)\<close>
  and conjugate the value before adding", and likewise for the rounded point of
  \<open>NEAREST\<close>. By the invariant of the data model, "only voxels with
  \<open>kp\<^sup>2 + ip\<^sup>2 + jp\<^sup>2 \<le> r_max\<^sup>2\<close> are touched by insertion".
\<close>

definition add_at ::
  "int \<Rightarrow> complex \<Rightarrow> real \<Rightarrow> complex grid \<times> real grid \<Rightarrow> voxel \<times> real \<Rightarrow> complex grid \<times> real grid" where
  "add_at rmax v w G ct =
   (case G of (D, W) \<Rightarrow> case ct of ((kp, ip, jp), t) \<Rightarrow>
      let c = (if jp < 0 then (- kp, - ip, - jp) else (kp, ip, jp));
          v' = (if jp < 0 then cnj v else v)
      in if inside (rmax * rmax) c
         then (D(c := D c + of_real t * v'), W(c := W c + t * w))
         else (D, W))"

text \<open>
  The common contract of the spec, for one source pixel \<open>p = (ip, jp)\<close>:
  \<^enum> "Skip if \<open>|f_src| > r_max / padding_factor\<close>."
  \<^enum> "Compute target grid frequency \<open>f_tgt = padding_factor \<cdot> A \<cdot> f_src\<close>"; for
    \<open>backproject\<close>, "each 2D source pixel at \<open>(ip,jp)\<close> maps to 3D frequency
    \<open>A\<cdot>(jp,ip,0)\<^sup>T\<close>".
  \<^enum> "Determine a contribution weight \<open>w = Mw[p]\<close> if supplied, else 1."
  \<^enum> The sample and its weight are splatted "using the active interpolation kernel":
    \<open>NEAREST\<close> when it is the interpolator of the object or when \<open>|f_src| < r_min_nn\<close>,
    \<open>TRILINEAR\<close> otherwise.

  What is splatted follows the comment of the header on the declaration of
  \<open>backproject\<close>: "If a exp_Mweight is given, rather than adding 1 to all relevant
  pixels in the weight array, we use exp_Mweight". The weight map changes what is added
  to the weight array and nothing else: the sample \<open>Fin[p]\<close> goes into \<open>D\<close> as it
  is, and \<open>w\<close> into \<open>W\<close>.
\<close>

definition insert_pixel ::
  "geometry \<Rightarrow> mat3 \<Rightarrow> (int \<times> int \<Rightarrow> complex) \<Rightarrow> (int \<times> int \<Rightarrow> real) option \<Rightarrow>
   complex grid \<times> real grid \<Rightarrow> int \<times> int \<Rightarrow> complex grid \<times> real grid" where
  "insert_pixel g A F Mw G p =
   (case p of (ip, jp) \<Rightarrow>
      let r = sqrt (of_int (ip * ip + jp * jp))
      in if r > of_int (g_r_max g) / of_int (g_padding_factor g) then G
         else
           let f_tgt = (case mat_vec A (of_int jp, of_int ip, 0) of (x, y, z) \<Rightarrow>
                          (of_int (g_padding_factor g) * x, of_int (g_padding_factor g) * y,
                           of_int (g_padding_factor g) * z));
               w = (case Mw of None \<Rightarrow> 1 | Some m \<Rightarrow> m p);
               targets = (if g_interpolator g = NEAREST_NEIGHBOUR \<or> r < of_int (g_r_min_nn g)
                          then nearest_targets f_tgt else trilinear_targets f_tgt)
           in foldl (add_at (g_r_max g) (F p) w) G targets)"

text \<open>
  Modelled from the spec: the body of \<open>BackProjector::backproject\<close> is missing. It is the
  loop of the common contract over the pixels of the image. The name has a prefix,
  since \<open>backproject\<close> is also a parameter of \<open>set2DFourierTransform\<close> above.
\<close>

definition spec_backproject ::
  "geometry \<Rightarrow> fourier_image \<Rightarrow> mat3 \<Rightarrow> bool \<Rightarrow> (int \<times> int \<Rightarrow> real) option \<Rightarrow>
   complex grid \<times> real grid \<Rightarrow> complex grid \<times> real grid" where
  "spec_backproject g Fin A inv' Mw G =
   foldl (insert_pixel g (if inv' then mat_inverse A else A) (pixel_value Fin) Mw) G (pixels Fin)"

text \<open>
  Modelled from the spec: step 4 of the common contract reads "Splat \<open>Fin[p] \<cdot> w\<close> into
  \<open>D\<close> and \<open>w\<close> into \<open>W\<close>", against the comment of the header. The insertion that
  multiplies the sample by its weight is kept beside the one above, to settle the
  additivity of insertions on both readings of the missing body.
\<close>

definition insert_pixel_premultiplied ::
  "geometry \<Rightarrow> mat3 \<Rightarrow> (int \<times> int \<Rightarrow> complex) \<Rightarrow> (int \<times> int \<Rightarrow> real) option \<Rightarrow>
   complex grid \<times> real grid \<Rightarrow> int \<times> int \<Rightarrow> complex grid \<times> real grid" where
  "insert_pixel_premultiplied g A F Mw G p =
   (case p of (ip, jp) \<Rightarrow>
      let r = sqrt (of_int (ip * ip + jp * jp))
      in if r > of_int (g_r_max g) / of_int (g_padding_factor g) then G
         else
           let f_tgt = (case mat_vec A (of_int jp, of_int ip, 0) of (x, y, z) \<Rightarrow>
                          (of_int (g_padding_factor g) * x, of_int (g_padding_factor g) * y,
                           of_int (g_padding_factor g) * z));
               w = (case Mw of None \<Rightarrow> 1 | Some m \<Rightarrow> m p);
               targets = (if g_interpolator g = NEAREST_NEIGHBOUR \<or> r < of_int (g_r_min_nn g)
                          then nearest_targets f_tgt else trilinear_targets f_tgt)
           in foldl (add_at (g_r_max g) (F p * of_real w) w) G targets)"

definition spec_backproject_premultiplied ::
  "geometry \<Rightarrow> fourier_image \<Rightarrow> mat3 \<Rightarrow> bool \<Rightarrow> (int \<times> int \<Rightarrow> real) option \<Rightarrow>
   complex grid \<times> real grid \<Rightarrow> complex grid \<times> real grid" where
  "spec_backproject_premultiplied g Fin A inv' Mw G =
   foldl (insert_pixel_premultiplied g (if inv' then mat_inverse A else A) (pixel_value Fin) Mw)
     G (pixels Fin)"



definition sum_weights :: "(int \<times> int \<Rightarrow> real) \<Rightarrow> (int \<times> int \<Rightarrow> real) \<Rightarrow> int \<times> int \<Rightarrow> real" where
  "sum_weights w1 w2 = (\<lambda>p. w1 p + w2 p)"

text \<open>
  For the proofs: the grid point a share lands on, what a list of shares adds to the
  voxel \<open>c0\<close> of the data grid and of the weight grid, and the same for the shares of a
  pixel.
\<close>

definition folded :: "voxel \<Rightarrow> voxel" where
  "folded c = (case c of (kp, ip, jp) \<Rightarrow> if jp < 0 then (- kp, - ip, - jp) else (kp, ip, jp))"

definition lands :: "int \<Rightarrow> voxel \<Rightarrow> voxel \<Rightarrow> bool" where
  "lands rmax c c0 = (folded c = c0 \<and> inside (rmax * rmax) c0)"

definition data_term :: "int \<Rightarrow> complex \<Rightarrow> voxel \<Rightarrow> voxel \<times> real \<Rightarrow> complex" where
  "data_term rmax v c0 ct = (case ct of (c, t) \<Rightarrow>
     if lands rmax c c0 then of_real t * (if snd (snd c) < 0 then cnj v else v) else 0)"

definition weight_term :: "int \<Rightarrow> real \<Rightarrow> voxel \<Rightarrow> voxel \<times> real \<Rightarrow> real" where
  "weight_term rmax w c0 ct = (case ct of (c, t) \<Rightarrow> if lands rmax c c0 then t * w else 0)"

definition pixel_weight :: "(int \<times> int \<Rightarrow> real) option \<Rightarrow> int \<times> int \<Rightarrow> real" where
  "pixel_weight Mw p = (case Mw of None \<Rightarrow> 1 | Some m \<Rightarrow> m p)"

definition pixel_targets :: "geometry \<Rightarrow> mat3 \<Rightarrow> int \<times> int \<Rightarrow> (voxel \<times> real) list" where
  "pixel_targets g A p =
   (case p of (ip, jp) \<Rightarrow>
      let r = sqrt (of_int (ip * ip + jp * jp))
      in if r > of_int (g_r_max g) / of_int (g_padding_factor g) then []
         else
           let f_tgt = (case mat_vec A (of_int jp, of_int ip, 0) of (x, y, z) \<Rightarrow>
                          (of_int (g_padding_factor g) * x, of_int (g_padding_factor g) * y,
                           of_int (g_padding_factor g) * z))
           in if g_interpolator g = NEAREST_NEIGHBOUR \<or> r < of_int (g_r_min_nn g)
              then nearest_targets f_tgt else trilinear_targets f_tgt)"

definition data_sum :: "geometry \<Rightarrow> mat3 \<Rightarrow> complex \<Rightarrow> int \<times> int \<Rightarrow> voxel \<Rightarrow> complex" where
  "data_sum g A v p c0 = (\<Sum>ct\<leftarrow>pixel_targets g A p. data_term (g_r_max g) v c0 ct)"

definition weight_sum :: "geometry \<Rightarrow> mat3 \<Rightarrow> real \<Rightarrow> int \<times> int \<Rightarrow> voxel \<Rightarrow> real" where
  "weight_sum g A w p c0 = (\<Sum>ct\<leftarrow>pixel_targets g A p. weight_term (g_r_max g) w c0 ct)"

subsection \<open>symmetrise\<close>

text \<open>
  A rotation \<open>R\<close> of the symmetry list acts on the point \<open>(x, y, z) = (jp, ip, kp)\<close> of a
  voxel.
\<close>

definition rotate_voxel :: "mat3 \<Rightarrow> voxel \<Rightarrow> vec3" where
  "rotate_voxel R v = (case v of (kp, ip, jp) \<Rightarrow> mat_vec R (of_int jp, of_int ip, of_int kp))"

text \<open>
  "Interpolation follows the same trilinear rule": the value at a point is the sum of
  the values at the 8 surrounding grid points, each with its trilinear weight, and a
  grid point with \<open>jp < 0\<close> is read at its Hermitian partner, conjugated for the data
  grid.
\<close>

definition lookup_data :: "complex grid \<Rightarrow> voxel \<Rightarrow> complex" where
  "lookup_data D c =
   (case c of (kp, ip, jp) \<Rightarrow> if jp < 0 then cnj (D (- kp, - ip, - jp)) else D (kp, ip, jp))"

definition lookup_weight :: "real grid \<Rightarrow> voxel \<Rightarrow> real" where
  "lookup_weight W c =
   (case c of (kp, ip, jp) \<Rightarrow> if jp < 0 then W (- kp, - ip, - jp) else W (kp, ip, jp))"

definition interpolate_data :: "complex grid \<Rightarrow> vec3 \<Rightarrow> complex" where
  "interpolate_data D f = (\<Sum>(c, t)\<leftarrow>trilinear_targets f. of_real t * lookup_data D c)"

definition interpolate_weight :: "real grid \<Rightarrow> vec3 \<Rightarrow> real" where
  "interpolate_weight W f = (\<Sum>(c, t)\<leftarrow>trilinear_targets f. t * lookup_weight W c)"

text \<open>The voxels a grid stores: "the constraint \<open>jp \<ge> 0\<close> (the \<open>x \<ge> 0\<close> half-space)".\<close>

definition stored :: "voxel \<Rightarrow> bool" where
  "stored v = (case v of (kp, ip, jp) \<Rightarrow> 0 \<le> jp)"

text \<open>
  Modelled from the spec: the body of \<open>BackProjector::symmetrise\<close> is missing. The spec:
  "if \<open>S\<close> contains \<open>n > 0\<close> non-identity rotations, for each voxel \<open>v\<close> inside
  \<open>rmax\<^sup>2\<close>, accumulate into \<open>D[v], W[v]\<close> the interpolated value of \<open>D, W\<close> at \<open>R\<cdot>v\<close> for
  every \<open>R \<in> S\<close>. [...] Accumulation is additive: final \<open>D, W\<close> at \<open>v\<close> equals
  \<open>(I + \<Sigma> R) \<cdot> (D, W)\<close> at \<open>v\<close>." The values are read from the grids of the call. The
  symmetry list, the field \<open>SL\<close> of the object, is the first argument.
\<close>

definition symmetrise ::
  "mat3 list \<Rightarrow> complex grid \<times> real grid \<Rightarrow> int \<Rightarrow> complex grid \<times> real grid" where
  "symmetrise S G rmax2 =
   (case G of (D, W) \<Rightarrow>
      if S = [] then (D, W)
      else ((\<lambda>v. if stored v \<and> inside rmax2 v
                  then D v + (\<Sum>R\<leftarrow>S. interpolate_data D (rotate_voxel R v)) else D v),
            (\<lambda>v. if stored v \<and> inside rmax2 v
                  then W v + (\<Sum>R\<leftarrow>S. interpolate_weight W (rotate_voxel R v)) else W v)))"

text \<open>"Multiplying the grids by \<open>|S| + 1\<close>", the other side of the claimed equation.\<close>

definition scale_grids :: "nat \<Rightarrow> complex grid \<times> real grid \<Rightarrow> complex grid \<times> real grid" where
  "scale_grids n G = (case G of (D, W) \<Rightarrow> ((\<lambda>v. of_nat n * D v), (\<lambda>v. of_nat n * W v)))"

text \<open>
  Rotations that map the grid onto itself: matrices with integer entries, by rows,
  their product, and the test \<open>M\<^sup>T M = I\<close>. \<open>turn M v\<close> is the voxel of \<open>M \<cdot> v\<close>.
\<close>

type_synonym ivec3 = "int \<times> int \<times> int"

type_synonym imat3 = "ivec3 \<times> ivec3 \<times> ivec3"

definition of_int_mat :: "imat3 \<Rightarrow> mat3" where
  "of_int_mat M =
   (case M of ((a11, a12, a13), (a21, a22, a23), (a31, a32, a33)) \<Rightarrow>
      ((of_int a11, of_int a12, of_int a13), (of_int a21, of_int a22, of_int a23),
       (of_int a31, of_int a32, of_int a33)))"

definition imat_vec :: "imat3 \<Rightarrow> ivec3 \<Rightarrow> ivec3" where
  "imat_vec A v =
   (case A of ((a11, a12, a13), (a21, a22, a23), (a31, a32, a33)) \<Rightarrow>
    case v of (x, y, z) \<Rightarrow>
      (a11 * x + a12 * y + a13 * z, a21 * x + a22 * y + a23 * z, a31 * x + a32 * y + a33 * z))"

definition imat_mul :: "imat3 \<Rightarrow> imat3 \<Rightarrow> imat3" where
  "imat_mul A B =
   (case A of ((a11, a12, a13), (a21, a22, a23), (a31, a32, a33)) \<Rightarrow>
    case B of ((b11, b12, b13), (b21, b22, b23), (b31, b32, b33)) \<Rightarrow>
      ((a11 * b11 + a12 * b21 + a13 * b31, a11 * b12 + a12 * b22 + a13 * b32,
        a11 * b13 + a12 * b23 + a13 * b33),
       (a21 * b11 + a22 * b21 + a23 * b31, a21 * b12 + a22 * b22 + a23 * b32,
        a21 * b13 + a22 * b23 + a23 * b33),
       (a31 * b11 + a32 * b21 + a33 * b31, a31 * b12 + a32 * b22 + a33 * b32,
        a31 * b13 + a32 * b23 + a33 * b33)))"

definition imat_identity :: imat3 where
  "imat_identity = ((1, 0, 0), (0, 1, 0), (0, 0, 1))"

definition imat_transpose :: "imat3 \<Rightarrow> imat3" where
  "imat_transpose A =
   (case A of ((a11, a12, a13), (a21, a22, a23), (a31, a32, a33)) \<Rightarrow>
      ((a11, a21, a31), (a12, a22, a32), (a13, a23, a33)))"

definition orthogonal :: "imat3 \<Rightarrow> bool" where
  "orthogonal M = (imat_mul (imat_transpose M) M = imat_identity)"

definition turn :: "imat3 \<Rightarrow> voxel \<Rightarrow> voxel" where
  "turn M v = (case v of (kp, ip, jp) \<Rightarrow> case imat_vec M (jp, ip, kp) of (x, y, z) \<Rightarrow> (z, y, x))"

text \<open>
  For the proofs: the opposite voxel, the point of a voxel, and the lookup, the
  interpolation and the symmetrisation of one grid, with the conjugation as a parameter.
\<close>

definition neg :: "voxel \<Rightarrow> voxel" where
  "neg v = (case v of (kp, ip, jp) \<Rightarrow> (- kp, - ip, - jp))"

definition lattice_point :: "voxel \<Rightarrow> vec3" where
  "lattice_point v = (case v of (kp, ip, jp) \<Rightarrow> (of_int jp, of_int ip, of_int kp))"

definition lookup :: "('a \<Rightarrow> 'a) \<Rightarrow> 'a grid \<Rightarrow> voxel \<Rightarrow> 'a" where
  "lookup cj G c = (if snd (snd c) < 0 then cj (G (neg c)) else G c)"

definition interpolate :: "('a \<Rightarrow> 'a) \<Rightarrow> ('a::real_vector) grid \<Rightarrow> vec3 \<Rightarrow> 'a" where
  "interpolate cj G f = (\<Sum>(c, t)\<leftarrow>trilinear_targets f. t *\<^sub>R lookup cj G c)"

definition sym1 :: "('a \<Rightarrow> 'a) \<Rightarrow> mat3 list \<Rightarrow> int \<Rightarrow> ('a::real_vector) grid \<Rightarrow> 'a grid" where
  "sym1 cj S rmax2 G =
   (\<lambda>v. if stored v \<and> inside rmax2 v then G v + (\<Sum>R\<leftarrow>S. interpolate cj G (rotate_voxel R v)) else G v)"

definition orbit_sum :: "('a \<Rightarrow> 'a) \<Rightarrow> ('a::real_vector) grid \<Rightarrow> imat3 list \<Rightarrow> voxel \<Rightarrow> 'a" where
  "orbit_sum cj G Ms v = (\<Sum>M\<leftarrow>Ms. lookup cj G (turn M v))"

section \<open>Test objects\<close>

text \<open>
  An array without elements and an object whose fields are all zero: the starting
  points of the concrete instances below.
\<close>

definition empty_array :: "'a MultidimArray" where
  "empty_array = \<lparr>xdim = 0, ydim = 0, zdim = 0, xinit = 0, yinit = 0, zinit = 0, vals = []\<rparr>"

definition zero_object :: "(unit, unit) BackProjector" where
  "zero_object = \<lparr>data = empty_array, ori_size = 0, pad_size = 0, r_max = 0, r_min_nn = 0,
     interpolator = 0, padding_factor = 0, ref_dim = 0, data_dim = 0, weight = empty_array,
     tab_ftblob = (), SL = ()\<rparr>"

text \<open>
  Two arrays of one plane with three rows of two elements: a centred one, whose rows
  are the frequencies \<open>-1, 0, 1\<close>, and one in the layout of an FFTW transform.
\<close>

definition centred_plane :: "'a list \<Rightarrow> 'a MultidimArray" where
  "centred_plane xs =
   \<lparr>xdim = 2, ydim = 3, zdim = 1, xinit = 0, yinit = - 1, zinit = 0, vals = xs\<rparr>"

definition fftw_plane :: "'a list \<Rightarrow> 'a MultidimArray" where
  "fftw_plane xs =
   \<lparr>xdim = 2, ydim = 3, zdim = 1, xinit = 0, yinit = 0, zinit = 0, vals = xs\<rparr>"

text \<open>
  A store with the centred plane of the elements \<open>xs\<close> at address 0 and the FFTW plane
  of the elements \<open>ys\<close> at every other address.
\<close>

definition plane_store :: "'a list \<Rightarrow> 'a list \<Rightarrow> int \<Rightarrow> 'a MultidimArray" where
  "plane_store xs ys = (\<lambda>a. fftw_plane ys)(0 := centred_plane xs)"

text \<open>A data grid and a weight grid for the instances about the grids of the spec.\<close>

definition ramp_data :: "complex grid" where
  "ramp_data v = (case v of (k, i, j) \<Rightarrow> Complex (of_int (k + 2 * i)) (of_int (3 * k + j)))"

definition ramp_weight :: "real grid" where
  "ramp_weight v = (case v of (k, i, j) \<Rightarrow> of_int (5 + k + 2 * i + j))"

text \<open>
  The identity matrix, a geometry with \<open>r_max = 1\<close> and no padding, and an image of
  the single pixel \<open>(0, 0)\<close>.
\<close>

definition mat_identity :: mat3 where
  "mat_identity = ((1, 0, 0), (0, 1, 0), (0, 0, 1))"

definition unit_geometry :: geometry where
  "unit_geometry =
   \<lparr>g_r_max = 1, g_padding_factor = 1, g_r_min_nn = 0, g_interpolator = TRILINEAR\<rparr>"

definition origin_pixel :: "complex \<Rightarrow> fourier_image" where
  "origin_pixel v = \<lparr>pixels = [(0, 0)], pixel_value = (\<lambda>p. v)\<rparr>"

text \<open>
  A geometry with \<open>r_max = 2\<close>, an image of the single pixel \<open>(1, 1)\<close>, and the quarter
  turn about the \<open>y\<close> axis, an orientation that takes this pixel to the voxel
  \<open>(1, 1, 0)\<close>.
\<close>

definition wide_geometry :: geometry where
  "wide_geometry =
   \<lparr>g_r_max = 2, g_padding_factor = 1, g_r_min_nn = 0, g_interpolator = TRILINEAR\<rparr>"

definition diagonal_pixel :: "complex \<Rightarrow> fourier_image" where
  "diagonal_pixel v = \<lparr>pixels = [(1, 1)], pixel_value = (\<lambda>p. v)\<rparr>"

definition quarter_turn_y :: mat3 where
  "quarter_turn_y = ((0, 0, - 1), (0, 1, 0), (1, 0, 0))"

text \<open>
  The point group \<open>c3\<close>: the rotations by a third and by two thirds of a turn about the
  \<open>z\<close> axis. The grids with the value 1 at the origin and 0 elsewhere.
\<close>

definition third_turn_z :: mat3 where
  "third_turn_z = ((- (1 / 2), - (sqrt 3 / 2), 0), (sqrt 3 / 2, - (1 / 2), 0), (0, 0, 1))"

definition two_thirds_turn_z :: mat3 where
  "two_thirds_turn_z = ((- (1 / 2), sqrt 3 / 2, 0), (- (sqrt 3 / 2), - (1 / 2), 0), (0, 0, 1))"

definition c3 :: "mat3 list" where
  "c3 = [third_turn_z, two_thirds_turn_z]"

definition origin_data :: "complex grid" where
  "origin_data v = (if v = (0, 0, 0) then 1 else 0)"

definition origin_weight :: "real grid" where
  "origin_weight v = (if v = (0, 0, 0) then 1 else 0)"

text \<open>
  The point group \<open>c4\<close>: the rotations by one, two and three quarters of a turn about the
  \<open>z\<close> axis, which have integer entries. The grids with the value 1 at the voxel
  \<open>(1, 1, 0)\<close> and 0 elsewhere; their plane \<open>jp = 0\<close> is not Hermitian.
\<close>

definition quarter_turn_z :: imat3 where
  "quarter_turn_z = ((0, - 1, 0), (1, 0, 0), (0, 0, 1))"

definition half_turn_z :: imat3 where
  "half_turn_z = ((- 1, 0, 0), (0, - 1, 0), (0, 0, 1))"

definition three_quarter_turn_z :: imat3 where
  "three_quarter_turn_z = ((0, 1, 0), (- 1, 0, 0), (0, 0, 1))"

definition c4 :: "imat3 list" where
  "c4 = [quarter_turn_z, half_turn_z, three_quarter_turn_z]"

definition corner_data :: "complex grid" where
  "corner_data v = (if v = (1, 1, 0) then 1 else 0)"

definition corner_weight :: "real grid" where
  "corner_weight v = (if v = (1, 1, 0) then 1 else 0)"

text \<open>
  The point group \<open>d2\<close>: the half turns about the three axes. Grids that are zero outside
  the radius \<open>rmax2 = 2\<close> and whose plane \<open>jp = 0\<close> is Hermitian.
\<close>

definition half_turn_x :: imat3 where
  "half_turn_x = ((1, 0, 0), (0, - 1, 0), (0, 0, - 1))"

definition half_turn_y :: imat3 where
  "half_turn_y = ((- 1, 0, 0), (0, 1, 0), (0, 0, - 1))"

definition d2 :: "imat3 list" where
  "d2 = [half_turn_x, half_turn_y, half_turn_z]"

definition disc_data :: "complex grid" where
  "disc_data v = (case v of (k, i, j) \<Rightarrow>
     if 0 \<le> j \<and> k * k + i * i + j * j \<le> 2
     then Complex (of_int (k * k + i * i + j)) (of_int (k + 2 * i)) else 0)"

definition disc_weight :: "real grid" where
  "disc_weight v = (case v of (k, i, j) \<Rightarrow>
     if 0 \<le> j \<and> k * k + i * i + j * j \<le> 2 then of_int (k * k + i * i + j) else 0)"

section \<open>Theorems\<close>

subsection \<open>Dispatch of set2DFourierTransform\<close>

text \<open>
  C1. For a 2D input image (indeed for every image that is not 3D),
  \<open>set2DFourierTransform\<close> is the call of \<open>backrotate2D\<close> when \<open>ref_dim = 2\<close> and the call
  of \<open>backproject\<close> when \<open>ref_dim = 3\<close>; for a 3D input image with \<open>ref_dim = 3\<close> it is
  the call of \<open>backrotate3D\<close>. Each call receives \<open>img_in\<close>, \<open>A\<close>, \<open>inv\<close> and \<open>Mweight\<close>
  as they were passed in.
\<close>

theorem set2DFourierTransform_dispatch:
  "(getDim img_in \<noteq> 3 \<and> ref_dim this = 2 \<longrightarrow>
      set2DFourierTransform getDim backrotate2D backrotate3D backproject img_in A inv' Mweight this
        = backrotate2D img_in A inv' Mweight this) \<and>
   (getDim img_in \<noteq> 3 \<and> ref_dim this = 3 \<longrightarrow>
      set2DFourierTransform getDim backrotate2D backrotate3D backproject img_in A inv' Mweight this
        = backproject img_in A inv' Mweight this) \<and>
   (getDim img_in = 3 \<and> ref_dim this = 3 \<longrightarrow>
      set2DFourierTransform getDim backrotate2D backrotate3D backproject img_in A inv' Mweight this
        = backrotate3D img_in A inv' Mweight this)"
  by (simp add: set2DFourierTransform_def)

text \<open>
  Three instances: the image is its own dimension, and each insertion routine leaves
  its own mark in \<open>r_max\<close>, computed from the image, the matrix, the flag and the weight
  map it receives. A 2D image goes to \<open>backrotate2D\<close> when \<open>ref_dim = 2\<close> and to
  \<open>backproject\<close> when \<open>ref_dim = 3\<close>; a 3D image with \<open>ref_dim = 3\<close> goes to \<open>backrotate3D\<close>.
\<close>

theorem set2DFourierTransform_dispatch_witness:
  "set2DFourierTransform (\<lambda>img. img)
     (\<lambda>img A i w s. Inr (s\<lparr>r_max := (if i \<and> w = Some A then 200 + img else 0)\<rparr>))
     (\<lambda>img A i w s. Inr (s\<lparr>r_max := (if i \<and> w = Some A then 300 + img else 0)\<rparr>))
     (\<lambda>img A i w s. Inr (s\<lparr>r_max := (if i \<and> w = Some A then 230 + img else 0)\<rparr>))
     2 (7::nat) True (Some (7::nat)) (zero_object\<lparr>ref_dim := 2\<rparr>)
   = Inr (zero_object\<lparr>ref_dim := 2, r_max := 202\<rparr>) \<and>
   set2DFourierTransform (\<lambda>img. img)
     (\<lambda>img A i w s. Inr (s\<lparr>r_max := (if i \<and> w = Some A then 200 + img else 0)\<rparr>))
     (\<lambda>img A i w s. Inr (s\<lparr>r_max := (if i \<and> w = Some A then 300 + img else 0)\<rparr>))
     (\<lambda>img A i w s. Inr (s\<lparr>r_max := (if i \<and> w = Some A then 230 + img else 0)\<rparr>))
     2 (7::nat) True (Some (7::nat)) (zero_object\<lparr>ref_dim := 3\<rparr>)
   = Inr (zero_object\<lparr>ref_dim := 3, r_max := 232\<rparr>) \<and>
   set2DFourierTransform (\<lambda>img. img)
     (\<lambda>img A i w s. Inr (s\<lparr>r_max := (if i \<and> w = Some A then 200 + img else 0)\<rparr>))
     (\<lambda>img A i w s. Inr (s\<lparr>r_max := (if i \<and> w = Some A then 300 + img else 0)\<rparr>))
     (\<lambda>img A i w s. Inr (s\<lparr>r_max := (if i \<and> w = Some A then 230 + img else 0)\<rparr>))
     3 (7::nat) True (Some (7::nat)) (zero_object\<lparr>ref_dim := 3\<rparr>)
   = Inr (zero_object\<lparr>ref_dim := 3, r_max := 303\<rparr>)"
  using
    set2DFourierTransform_dispatch
      [of "\<lambda>img. img" 2 "zero_object\<lparr>ref_dim := 2\<rparr>"
          "\<lambda>img A i w s. Inr (s\<lparr>r_max := (if i \<and> w = Some A then 200 + img else 0)\<rparr>)"
          "\<lambda>img A i w s. Inr (s\<lparr>r_max := (if i \<and> w = Some A then 300 + img else 0)\<rparr>)"
          "\<lambda>img A i w s. Inr (s\<lparr>r_max := (if i \<and> w = Some A then 230 + img else 0)\<rparr>)"
          "7::nat" True "Some (7::nat)"]
    set2DFourierTransform_dispatch
      [of "\<lambda>img. img" 2 "zero_object\<lparr>ref_dim := 3\<rparr>"
          "\<lambda>img A i w s. Inr (s\<lparr>r_max := (if i \<and> w = Some A then 200 + img else 0)\<rparr>)"
          "\<lambda>img A i w s. Inr (s\<lparr>r_max := (if i \<and> w = Some A then 300 + img else 0)\<rparr>)"
          "\<lambda>img A i w s. Inr (s\<lparr>r_max := (if i \<and> w = Some A then 230 + img else 0)\<rparr>)"
          "7::nat" True "Some (7::nat)"]
    set2DFourierTransform_dispatch
      [of "\<lambda>img. img" 3 "zero_object\<lparr>ref_dim := 3\<rparr>"
          "\<lambda>img A i w s. Inr (s\<lparr>r_max := (if i \<and> w = Some A then 200 + img else 0)\<rparr>)"
          "\<lambda>img A i w s. Inr (s\<lparr>r_max := (if i \<and> w = Some A then 300 + img else 0)\<rparr>)"
          "\<lambda>img A i w s. Inr (s\<lparr>r_max := (if i \<and> w = Some A then 230 + img else 0)\<rparr>)"
          "7::nat" True "Some (7::nat)"]
  by simp

text \<open>
  C2. A 3D image when \<open>ref_dim \<noteq> 3\<close>, and an image that is not 3D (in particular a 2D
  one) when \<open>ref_dim\<close> is neither 2 nor 3, make \<open>set2DFourierTransform\<close> throw. No
  insertion routine runs: the object at the throw is the object of the call, so its
  data and weight grids are untouched.
\<close>

theorem set2DFourierTransform_dimension_mismatch:
  "(getDim img_in = 3 \<and> ref_dim this \<noteq> 3 \<longrightarrow>
      set2DFourierTransform getDim backrotate2D backrotate3D backproject
        img_in A inv' Mweight this
      = Inl (RelionError
          ''Backprojector::set3DFourierTransform%%ERROR: Dimension of the data array should be 3'',
          this)) \<and>
   (getDim img_in \<noteq> 3 \<and> ref_dim this \<noteq> 2 \<and> ref_dim this \<noteq> 3 \<longrightarrow>
      set2DFourierTransform getDim backrotate2D backrotate3D backproject
        img_in A inv' Mweight this
      = Inl (RelionError
          ''Backprojector::set2DSlice%%ERROR: Dimension of the data array should be 2 or 3'',
          this))"
  by (simp add: set2DFourierTransform_def)

text \<open>
  Two instances: a 3D image with \<open>ref_dim = 2\<close>, and a 2D image with \<open>ref_dim = 4\<close>. The
  insertion routines of the instance would overwrite both grids.
\<close>

theorem set2DFourierTransform_dimension_mismatch_witness:
  "set2DFourierTransform (\<lambda>img. img)
      (\<lambda>img A i w s. Inr (s\<lparr>data := A, weight := default_arg empty_array w\<rparr>))
      (\<lambda>img A i w s. Inr (s\<lparr>data := A, weight := default_arg empty_array w\<rparr>))
      (\<lambda>img A i w s. Inr (s\<lparr>data := A, weight := default_arg empty_array w\<rparr>))
      3 (empty_array\<lparr>xdim := 1\<rparr>) False (Some (empty_array\<lparr>xdim := 1\<rparr>))
      (zero_object\<lparr>ref_dim := 2\<rparr>)
    = Inl (RelionError
        ''Backprojector::set3DFourierTransform%%ERROR: Dimension of the data array should be 3'',
        zero_object\<lparr>ref_dim := 2\<rparr>) \<and>
   set2DFourierTransform (\<lambda>img. img)
      (\<lambda>img A i w s. Inr (s\<lparr>data := A, weight := default_arg empty_array w\<rparr>))
      (\<lambda>img A i w s. Inr (s\<lparr>data := A, weight := default_arg empty_array w\<rparr>))
      (\<lambda>img A i w s. Inr (s\<lparr>data := A, weight := default_arg empty_array w\<rparr>))
      2 (empty_array\<lparr>xdim := 1\<rparr>) False (Some (empty_array\<lparr>xdim := 1\<rparr>))
      (zero_object\<lparr>ref_dim := 4\<rparr>)
    = Inl (RelionError
        ''Backprojector::set2DSlice%%ERROR: Dimension of the data array should be 2 or 3'',
        zero_object\<lparr>ref_dim := 4\<rparr>)"
  using
    set2DFourierTransform_dimension_mismatch
      [of "\<lambda>img. img" 3 "zero_object\<lparr>ref_dim := 2\<rparr>"
          "\<lambda>img A i w s. Inr (s\<lparr>data := A, weight := default_arg empty_array w\<rparr>)"
          "\<lambda>img A i w s. Inr (s\<lparr>data := A, weight := default_arg empty_array w\<rparr>)"
          "\<lambda>img A i w s. Inr (s\<lparr>data := A, weight := default_arg empty_array w\<rparr>)"
          "empty_array\<lparr>xdim := 1\<rparr>" False "Some (empty_array\<lparr>xdim := 1\<rparr>)"]
    set2DFourierTransform_dimension_mismatch
      [of "\<lambda>img. img" 2 "zero_object\<lparr>ref_dim := 4\<rparr>"
          "\<lambda>img A i w s. Inr (s\<lparr>data := A, weight := default_arg empty_array w\<rparr>)"
          "\<lambda>img A i w s. Inr (s\<lparr>data := A, weight := default_arg empty_array w\<rparr>)"
          "\<lambda>img A i w s. Inr (s\<lparr>data := A, weight := default_arg empty_array w\<rparr>)"
          "empty_array\<lparr>xdim := 1\<rparr>" False "Some (empty_array\<lparr>xdim := 1\<rparr>)"]
  by simp

subsection \<open>The constructor\<close>

text \<open>
  C8. The constructor leaves in \<open>tab_ftblob\<close> the result of \<open>initialise\<close> called with
  the blob radius times the padding factor, then the blob's alpha, then its order, and
  10000 as the number of elements. Arguments the caller leaves out have the defaults of
  the signature.
\<close>

theorem ctor_initialises_tab_ftblob:
  "tab_ftblob (BackProjector_ctor read_sym_file initialise this0 ori_size' ref_dim' fn_sym
      interpolator' padding_factor_3d' r_min_nn' blob_order' blob_radius' blob_alpha' data_dim')
   = initialise
       (default_arg 1.9 blob_radius' * real_of_int (default_arg 2 padding_factor_3d'))
       (default_arg 15 blob_alpha') (default_arg 0 blob_order') 10000 (tab_ftblob this0)"
  by (simp add: BackProjector_ctor_def Let_def)

text \<open>
  C9. When the caller leaves the interpolator out, the constructed object has
  \<open>interpolator = TRILINEAR\<close>.
\<close>

theorem ctor_default_interpolator:
  "interpolator (BackProjector_ctor read_sym_file initialise this0 ori_size' ref_dim' fn_sym
      None padding_factor_3d' r_min_nn' blob_order' blob_radius' blob_alpha' data_dim')
   = TRILINEAR"
  by (simp add: BackProjector_ctor_def Let_def default_arg_def)

subsection \<open>Assignment\<close>

text \<open>
  C10. Assigning an object to itself leaves the whole store as it was. Assigning from
  a different object returns the target, and each of the twelve fields of the target is
  then equal to the field of the source.
\<close>

theorem assign_fields:
  "assign store this this = (this, store) \<and>
   (op \<noteq> this \<longrightarrow>
      fst (assign store this op) = this \<and>
      data (snd (assign store this op) this) = data (store op) \<and>
      ori_size (snd (assign store this op) this) = ori_size (store op) \<and>
      pad_size (snd (assign store this op) this) = pad_size (store op) \<and>
      r_max (snd (assign store this op) this) = r_max (store op) \<and>
      r_min_nn (snd (assign store this op) this) = r_min_nn (store op) \<and>
      interpolator (snd (assign store this op) this) = interpolator (store op) \<and>
      padding_factor (snd (assign store this op) this) = padding_factor (store op) \<and>
      ref_dim (snd (assign store this op) this) = ref_dim (store op) \<and>
      data_dim (snd (assign store this op) this) = data_dim (store op) \<and>
      weight (snd (assign store this op) this) = weight (store op) \<and>
      tab_ftblob (snd (assign store this op) this) = tab_ftblob (store op) \<and>
      SL (snd (assign store this op) this) = SL (store op))"
  by (simp add: assign_def Let_def)

text \<open>
  An instance: a store with the zero object at every address but 1, where an object
  with \<open>ori_size = 64\<close> and \<open>ref_dim = 3\<close> lives; it is assigned to the object at address 0.
\<close>

theorem assign_fields_witness:
  "ori_size (snd (assign ((\<lambda>a. zero_object)(1 := zero_object\<lparr>ori_size := 64, ref_dim := 3\<rparr>))
       (0::nat) 1) 0) = 64 \<and>
   ref_dim (snd (assign ((\<lambda>a. zero_object)(1 := zero_object\<lparr>ori_size := 64, ref_dim := 3\<rparr>))
       (0::nat) 1) 0) = 3 \<and>
   fst (assign ((\<lambda>a. zero_object)(1 := zero_object\<lparr>ori_size := 64, ref_dim := 3\<rparr>))
       (0::nat) 1) = 0"
  using assign_fields
    [of "(\<lambda>a. zero_object)(1 := zero_object\<lparr>ori_size := 64, ref_dim := 3\<rparr>)" "0::nat" 1]
  by simp

subsection \<open>The decenter helpers\<close>

text \<open>The nested loops visit the buffer offsets in increasing order.\<close>

lemma split_upt: "[0..<Suc n * m] = [0..<n * m] @ map (\<lambda>j. j + n * m) [0..<m]"
proof -
  have "[0..<n * m + m] = [0..<n * m] @ [n * m..<n * m + m]"
    by (rule upt_add_eq_append) simp
  moreover have "map (\<lambda>j. j + n * m) [0..<m] = [n * m..<n * m + m]"
    using map_add_upt[of "n * m" m] by (simp add: add.commute)
  ultimately show ?thesis by (simp add: add.commute)
qed

lemma last_block: "map (\<lambda>p. g (p div m) (p mod m)) (map (\<lambda>j. j + n * m) [0..<m]) = map (g n) [0..<m]"
  by (rule nth_equalityI) simp_all

lemma concat_map_upt:
  "concat (map (\<lambda>i. map (g i) [0..<m]) [0..<n]) = map (\<lambda>p. g (p div m) (p mod m)) [0..<n * m]"
proof (induction n)
  case 0
  then show ?case by simp
next
  case (Suc n)
  have "concat (map (\<lambda>i. map (g i) [0..<m]) [0..<Suc n])
      = concat (map (\<lambda>i. map (g i) [0..<m]) [0..<n]) @ map (g n) [0..<m]"
    by simp
  also have "\<dots> = map (\<lambda>p. g (p div m) (p mod m)) [0..<n * m] @ map (g n) [0..<m]"
    by (simp only: Suc)
  also have "\<dots> = map (\<lambda>p. g (p div m) (p mod m)) ([0..<n * m] @ map (\<lambda>j. j + n * m) [0..<m])"
    by (simp only: map_append last_block)
  also have "\<dots> = map (\<lambda>p. g (p div m) (p mod m)) [0..<Suc n * m]"
    by (simp only: split_upt)
  finally show ?case .
qed

lemma fftw_elements_unflat:
  "fftw_elements V = map (unflat V) [0..<zdim V * (ydim V * xdim V)]"
  unfolding fftw_elements_def unflat_def
  by (simp add: concat_map_upt)

lemma for_each_map: "for_each body (map f xs) s = for_each (\<lambda>x. body (f x)) xs s"
  by (induction xs arbitrary: s) (auto split: sum.splits)

lemma fftw_frequencies_eq:
  "fftw_frequencies V = map (freq_of V) [0..<zdim V * (ydim V * xdim V)]"
  by (simp add: fftw_frequencies_def fftw_elements_unflat freq_of_def)

lemma offset_unflat:
  "direct_offset V (int (q div (ydim V * xdim V))) (int ((q mod (ydim V * xdim V)) div xdim V))
      (int ((q mod (ydim V * xdim V)) mod xdim V)) = int q"
proof -
  have "int q = int (q div (ydim V * xdim V) * (ydim V * xdim V)
        + ((q mod (ydim V * xdim V)) div xdim V * xdim V + (q mod (ydim V * xdim V)) mod xdim V))"
    by (simp only: div_mult_mod_eq)
  also have "\<dots> = int (q div (ydim V * xdim V)) * (int (ydim V) * int (xdim V))
        + (int ((q mod (ydim V * xdim V)) div xdim V) * int (xdim V)
           + int ((q mod (ydim V * xdim V)) mod xdim V))"
    by (simp only: of_nat_add of_nat_mult)
  finally show ?thesis
    by (simp only: direct_offset_def add.assoc)
qed

lemma loop_as_steps:
  "FOR_ALL_ELEMENTS_IN_FFTW_TRANSFORM V
         (\<lambda>k i j kp ip jp M.
            if kp * kp + ip * ip + jp * jp \<le> r then
              (case A3D_ELEM Min' kp ip jp of
                 Inl err \<Rightarrow> Inl err
               | Inr v \<Rightarrow> set_DIRECT_A3D_ELEM M (int k) (int i) (int j) (conv v))
            else Inr M) M0
   = for_each (step_at conv Min' r V) [0..<zdim V * (ydim V * xdim V)] M0"
  unfolding FOR_ALL_ELEMENTS_IN_FFTW_TRANSFORM_def fftw_elements_unflat for_each_map step_at_def
  by (simp add: case_prod_unfold)

lemma A3D_ELEM_error: "A3D_ELEM V k i j = Inl e \<Longrightarrow> e = OutOfBounds"
  by (simp add: A3D_ELEM_def DIRECT_A3D_ELEM_def Let_def split: if_splits)

lemma step_at_eq:
  assumes "same_shape M V"
  shows "step_at conv Min' r V q M =
    (if inside r (freq_of V q) then
       (if readable Min' (freq_of V q) then
          (if q < length (vals M) then Inr (M\<lparr>vals := (vals M)[q := copied_element conv Min' r (freq_of V q)]\<rparr>)
           else Inl OutOfBounds)
        else Inl OutOfBounds)
     else Inr M)"
proof -
  have off: "direct_offset M (int (q div (ydim V * xdim V))) (int ((q mod (ydim V * xdim V)) div xdim V))
      (int ((q mod (ydim V * xdim V)) mod xdim V)) = int q"
    using offset_unflat[of M q] assms by (simp add: same_shape_def)
  show ?thesis
    unfolding step_at_def unflat_def freq_of_def
    apply (simp add: inside_def readable_def copied_element_def set_DIRECT_A3D_ELEM_def off Let_def split: sum.splits)
    apply (auto dest: A3D_ELEM_error)
    done
qed

lemma same_shape_update: "same_shape M V \<Longrightarrow> same_shape (M\<lparr>vals := xs\<rparr>) V"
  by (simp add: same_shape_def)

lemma length_fill: "length (fill live val qs xs) = length xs"
  by (induction qs arbitrary: xs) simp_all

lemma nth_fill:
  "n < length xs \<Longrightarrow> fill live val qs xs ! n = (if n \<in> set qs \<and> live n then val n else xs ! n)"
proof (induction qs arbitrary: xs)
  case Nil
  then show ?case by simp
next
  case (Cons q qs)
  show ?case
  proof (cases "live q")
    case False
    with Cons show ?thesis by auto
  next
    case True
    have "fill live val (q # qs) xs ! n = fill live val qs (xs[q := val q]) ! n"
      using True by simp
    also have "\<dots> = (if n \<in> set qs \<and> live n then val n else xs[q := val q] ! n)"
      using Cons by simp
    also have "\<dots> = (if n \<in> set (q # qs) \<and> live n then val n else xs ! n)"
      using True Cons.prems by (cases "q = n") auto
    finally show ?thesis .
  qed
qed

lemma for_each_steps:
  assumes "same_shape M V" and "\<forall>q \<in> set qs. q < length (vals M)"
  shows "for_each (step_at conv Min' r V) qs M =
    (if \<forall>q \<in> set qs. inside r (freq_of V q) \<longrightarrow> readable Min' (freq_of V q) then
       Inr (M\<lparr>vals := fill (\<lambda>q. inside r (freq_of V q)) (\<lambda>q. copied_element conv Min' r (freq_of V q)) qs (vals M)\<rparr>)
     else Inl OutOfBounds)"
  using assms
proof (induction qs arbitrary: M)
  case Nil
  then show ?case by simp
next
  case (Cons q qs)
  show ?case
  proof (cases "inside r (freq_of V q)")
    case False
    with Cons show ?thesis by (simp add: step_at_eq)
  next
    case live: True
    show ?thesis
    proof (cases "readable Min' (freq_of V q)")
      case False
      with live Cons.prems show ?thesis by (auto simp add: step_at_eq)
    next
      case True
      let ?M = "M\<lparr>vals := (vals M)[q := copied_element conv Min' r (freq_of V q)]\<rparr>"
      have step: "step_at conv Min' r V q M = Inr ?M"
        using live True Cons.prems by (simp add: step_at_eq)
      have "same_shape ?M V" using Cons.prems(1) by (rule same_shape_update)
      moreover have "\<forall>q \<in> set qs. q < length (vals ?M)" using Cons.prems(2) by simp
      ultimately have IH: "for_each (step_at conv Min' r V) qs ?M =
        (if \<forall>q \<in> set qs. inside r (freq_of V q) \<longrightarrow> readable Min' (freq_of V q) then
           Inr (?M\<lparr>vals := fill (\<lambda>q. inside r (freq_of V q)) (\<lambda>q. copied_element conv Min' r (freq_of V q)) qs (vals ?M)\<rparr>)
         else Inl OutOfBounds)"
        by (rule Cons.IH)
      show ?thesis
        using live True by (simp add: step IH)
    qed
  qed
qed

lemma freq_of_initZeros: "freq_of (initZeros V) = freq_of V"
  by (rule ext) (simp add: freq_of_def unflat_def initZeros_def)

lemma copied_element_outside: "\<not> inside r f \<Longrightarrow> copied_element conv Min' r f = 0"
  by (cases f) (simp add: copied_element_def)

lemma decenter_loop_closed:
  assumes wf: "well_formed Mout"
  shows "FOR_ALL_ELEMENTS_IN_FFTW_TRANSFORM (initZeros Mout)
         (\<lambda>k i j kp ip jp M.
            if kp * kp + ip * ip + jp * jp \<le> r then
              (case A3D_ELEM Min' kp ip jp of
                 Inl err \<Rightarrow> Inl err
               | Inr v \<Rightarrow> set_DIRECT_A3D_ELEM M (int k) (int i) (int j) (conv v))
            else Inr M) (initZeros Mout)
     = gridded_to_fft_copy conv Min' Mout r"
proof -
  define N where "N = zdim Mout * (ydim Mout * xdim Mout)"
  define V0 where "V0 = initZeros Mout"
  have len: "length (vals V0) = N"
    using wf by (simp add: V0_def N_def initZeros_def well_formed_def mult.assoc)
  have dims: "zdim V0 * (ydim V0 * xdim V0) = N"
    by (simp add: V0_def N_def initZeros_def)
  have shape: "same_shape V0 V0"
    by (simp add: same_shape_def)
  have bound: "\<forall>q \<in> set [0..<N]. q < length (vals V0)"
    by (simp add: len)
  have freqs: "fftw_frequencies Mout = map (freq_of Mout) [0..<N]"
    by (simp add: fftw_frequencies_eq N_def)
  have cond: "list_all (readable Min') (filter (inside r) (fftw_frequencies Mout)) \<longleftrightarrow>
      (\<forall>q \<in> set [0..<N]. inside r (freq_of Mout q) \<longrightarrow> readable Min' (freq_of Mout q))"
    unfolding freqs list_all_iff by (simp only: set_filter set_map) blast
  have zero: "\<And>n. n < N \<Longrightarrow> vals V0 ! n = 0"
    using len by (simp add: V0_def initZeros_def)
  have filled: "fill (\<lambda>q. inside r (freq_of Mout q)) (\<lambda>q. copied_element conv Min' r (freq_of Mout q)) [0..<N] (vals V0)
      = map (copied_element conv Min' r) (fftw_frequencies Mout)"
  proof (rule nth_equalityI)
    show "length (fill (\<lambda>q. inside r (freq_of Mout q)) (\<lambda>q. copied_element conv Min' r (freq_of Mout q)) [0..<N] (vals V0))
        = length (map (copied_element conv Min' r) (fftw_frequencies Mout))"
      by (simp add: length_fill len freqs)
  next
    fix n
    assume "n < length (fill (\<lambda>q. inside r (freq_of Mout q)) (\<lambda>q. copied_element conv Min' r (freq_of Mout q)) [0..<N] (vals V0))"
    then have n: "n < N" by (simp add: length_fill len)
    then show "fill (\<lambda>q. inside r (freq_of Mout q)) (\<lambda>q. copied_element conv Min' r (freq_of Mout q)) [0..<N] (vals V0) ! n
        = map (copied_element conv Min' r) (fftw_frequencies Mout) ! n"
      by (simp add: nth_fill len freqs zero copied_element_outside)
  qed
  have fq: "freq_of V0 = freq_of Mout"
    by (simp add: V0_def freq_of_initZeros)
  have upd: "V0\<lparr>vals := xs\<rparr> = Mout\<lparr>vals := xs\<rparr>" for xs
    by (simp add: V0_def initZeros_def)
  have "for_each (step_at conv Min' r V0) [0..<N] V0 =
    (if \<forall>q \<in> set [0..<N]. inside r (freq_of V0 q) \<longrightarrow> readable Min' (freq_of V0 q) then
       Inr (V0\<lparr>vals := fill (\<lambda>q. inside r (freq_of V0 q)) (\<lambda>q. copied_element conv Min' r (freq_of V0 q)) [0..<N] (vals V0)\<rparr>)
     else Inl OutOfBounds)"
    using shape bound by (rule for_each_steps)
  then have "for_each (step_at conv Min' r V0) [0..<N] V0 = gridded_to_fft_copy conv Min' Mout r"
    unfolding gridded_to_fft_copy_def cond
    by (simp only: fq filled upd)
  then show ?thesis
    by (simp only: loop_as_steps dims flip: V0_def)
qed

lemma row_bound:
  fixes i j X Y :: nat
  assumes "i < Y" "j < X"
  shows "i * X + j < Y * X"
proof -
  have "i * X + j < i * X + X" using assms(2) by simp
  also have "\<dots> = Suc i * X" by simp
  also have "\<dots> \<le> Y * X" using assms(1) by (intro mult_le_mono1) simp
  finally show ?thesis .
qed

lemma div_mod_block:
  fixes k m b :: nat
  assumes "b < m"
  shows "(k * m + b) div m = k" and "(k * m + b) mod m = b"
  using assms by simp_all

lemma unflat_offset:
  assumes "i < ydim V" "j < xdim V"
  shows "unflat V (k * (ydim V * xdim V) + i * xdim V + j) = (k, i, j)"
proof -
  have lt: "i * xdim V + j < ydim V * xdim V"
    using assms by (rule row_bound)
  have d: "(k * (ydim V * xdim V) + i * xdim V + j) div (ydim V * xdim V) = k"
    using div_mod_block(1)[OF lt, of k] by (simp only: add.assoc)
  have m: "(k * (ydim V * xdim V) + i * xdim V + j) mod (ydim V * xdim V) = i * xdim V + j"
    using div_mod_block(2)[OF lt, of k] by (simp only: add.assoc)
  show ?thesis
    unfolding unflat_def d m using assms(2) by simp
qed

lemma offset_bound:
  assumes "k < zdim V" "i < ydim V" "j < xdim V"
  shows "k * (ydim V * xdim V) + i * xdim V + j < zdim V * (ydim V * xdim V)"
proof -
  have "i * xdim V + j < ydim V * xdim V"
    using assms(2,3) by (rule row_bound)
  then have "k * (ydim V * xdim V) + (i * xdim V + j) < zdim V * (ydim V * xdim V)"
    using assms(1) by (rule row_bound[rotated])
  then show ?thesis by (simp add: add.assoc)
qed

lemma copy_decentered:
  assumes wf: "well_formed Mout"
    and res: "gridded_to_fft_copy conv Min' Mout r = Inr M"
    and k: "k < zdim Mout" and i: "i < ydim Mout" and j: "j < xdim Mout"
  shows "copied_at conv Min' r M k i j"
proof -
  define N where "N = zdim Mout * (ydim Mout * xdim Mout)"
  define n where "n = k * (ydim Mout * xdim Mout) + i * xdim Mout + j"
  define f where "f = (fftw_freq (xdim Mout) (zdim Mout) k, fftw_freq (xdim Mout) (ydim Mout) i, int j)"
  have freqs: "fftw_frequencies Mout = map (freq_of Mout) [0..<N]"
    by (simp add: fftw_frequencies_eq N_def)
  have n: "n < N"
    unfolding n_def N_def using k i j by (rule offset_bound)
  have fn: "freq_of Mout n = f"
    unfolding freq_of_def n_def f_def using i j by (simp add: unflat_offset)
  have ok: "list_all (readable Min') (filter (inside r) (fftw_frequencies Mout))"
    and M: "M = Mout\<lparr>vals := map (copied_element conv Min' r) (fftw_frequencies Mout)\<rparr>"
    using res by (auto simp add: gridded_to_fft_copy_def split: if_splits)
  have mem: "f \<in> set (fftw_frequencies Mout)"
    unfolding freqs using n fn by force
  have rd: "inside r f \<Longrightarrow> readable Min' f"
    using ok mem unfolding list_all_iff by (cases f) simp
  have off: "direct_offset M (int k) (int i) (int j) = int n"
    by (simp add: direct_offset_def M n_def)
  have len: "length (vals M) = N"
    by (simp add: M freqs)
  have elem: "DIRECT_A3D_ELEM M (int k) (int i) (int j) = Inr (copied_element conv Min' r f)"
    using n by (simp add: DIRECT_A3D_ELEM_def off len Let_def) (simp add: M freqs fn)
  have dims: "xdim M = xdim Mout" "ydim M = ydim Mout" "zdim M = zdim Mout"
    by (simp_all add: M)
  show ?thesis
  proof (cases "inside r f")
    case False
    then show ?thesis
      unfolding copied_at_def dims Let_def elem
      by (simp add: f_def inside_def copied_element_def)
  next
    case True
    with rd have "readable Min' f" by simp
    with True show ?thesis
      unfolding copied_at_def dims Let_def elem
      by (auto simp add: f_def inside_def copied_element_def readable_def split: sum.splits)
  qed
qed

text \<open>
  While \<open>Min\<close> and \<open>Mout\<close> are different objects the loop on the store never changes
  the array it reads: it is the loop on the two arrays, with its result put at the
  address \<open>Mout\<close>.
\<close>

lemma store_steps:
  assumes "Min' \<noteq> Mout"
  shows "for_each
      (\<lambda>(k, i, j). (\<lambda>kp ip jp s.
            if kp * kp + ip * ip + jp * jp \<le> r then
              (case A3D_ELEM (s Min') kp ip jp of
                 Inl err \<Rightarrow> Inl err
               | Inr v \<Rightarrow>
                   (case set_DIRECT_A3D_ELEM (s Mout) (int k) (int i) (int j) (conv v) of
                      Inl err \<Rightarrow> Inl err
                    | Inr M \<Rightarrow> Inr (s(Mout := M))))
            else Inr s) (fz k) (fy i) (int j))
      es (store(Mout := M0))
   = in_store store Mout (for_each
      (\<lambda>(k, i, j). (\<lambda>kp ip jp M.
            if kp * kp + ip * ip + jp * jp \<le> r then
              (case A3D_ELEM (store Min') kp ip jp of
                 Inl err \<Rightarrow> Inl err
               | Inr v \<Rightarrow> set_DIRECT_A3D_ELEM M (int k) (int i) (int j) (conv v))
            else Inr M) (fz k) (fy i) (int j))
      es M0)"
proof (induction es arbitrary: M0)
  case Nil
  show ?case by (simp only: for_each.simps in_store_def sum.case)
next
  case (Cons e es)
  obtain k i j where e: "e = (k, i, j)" by (cases e)
  show ?case
  proof (cases "fz k * fz k + fy i * fy i + int j * int j \<le> r")
    case False
    then show ?thesis
      by (simp only: e for_each.simps prod.case if_False sum.case Cons.IH)
  next
    case inside: True
    have rd: "(store(Mout := M0)) Min' = store Min'" and wr: "(store(Mout := M0)) Mout = M0"
      using assms by simp_all
    show ?thesis
    proof (cases "A3D_ELEM (store Min') (fz k) (fy i) (int j)")
      case (Inl err)
      then show ?thesis
        by (simp only: e for_each.simps prod.case inside if_True rd wr sum.case in_store_def)
    next
      case (Inr v)
      show ?thesis
      proof (cases "set_DIRECT_A3D_ELEM M0 (int k) (int i) (int j) (conv v)")
        case (Inl err)
        then show ?thesis
          by (simp only: e for_each.simps prod.case inside if_True rd wr Inr sum.case in_store_def)
      next
        case written: (Inr M)
        have upd: "(store(Mout := M0))(Mout := M) = store(Mout := M)" by simp
        show ?thesis
          by (simp only: e for_each.simps prod.case inside if_True rd wr Inr written sum.case upd
              Cons.IH)
      qed
    qed
  qed
qed

lemma store_loop:
  assumes "Min' \<noteq> Mout" and "well_formed (store Mout)"
  shows "FOR_ALL_ELEMENTS_IN_FFTW_TRANSFORM ((store(Mout := initZeros (store Mout))) Mout)
         (\<lambda>k i j kp ip jp s.
            if kp * kp + ip * ip + jp * jp \<le> r then
              (case A3D_ELEM (s Min') kp ip jp of
                 Inl err \<Rightarrow> Inl err
               | Inr v \<Rightarrow>
                   (case set_DIRECT_A3D_ELEM (s Mout) (int k) (int i) (int j) (conv v) of
                      Inl err \<Rightarrow> Inl err
                    | Inr M \<Rightarrow> Inr (s(Mout := M))))
            else Inr s)
         (store(Mout := initZeros (store Mout)))
     = in_store store Mout (gridded_to_fft_copy conv (store Min') (store Mout) r)"
proof -
  have same: "(store(Mout := initZeros (store Mout))) Mout = initZeros (store Mout)"
    by simp
  show ?thesis
    unfolding same
    by (simp only: FOR_ALL_ELEMENTS_IN_FFTW_TRANSFORM_def store_steps [OF assms(1)]
        decenter_loop_closed [OF assms(2), unfolded FOR_ALL_ELEMENTS_IN_FFTW_TRANSFORM_def])
qed

text \<open>
  C6. On an output array that satisfies the class invariant, each of the four decenter
  helpers computes the generic gridded-to-FFT-layout copy of its input, with the
  helper's own conversion between the element types: the cast to \<open>double\<close> for
  \<open>decenter_fd\<close>, the conversion to \<open>float\<close> for the second \<open>decenter_ff\<close>, and no
  conversion for the first \<open>decenter_ff\<close> and for \<open>decenter_cc\<close>. For these two, whose
  arguments have one type, the input and the output are different objects, and the
  copy is left at the address of the output in a store that is otherwise unchanged.
  The helpers also fail on the same inputs as the copy.
\<close>

theorem decenter_helpers_generic_copy:
  "(well_formed Mout1 \<longrightarrow>
      decenter_fd to_double Min1 Mout1 r = gridded_to_fft_copy to_double Min1 Mout1 r) \<and>
   (Min2 \<noteq> Mout2 \<and> well_formed (store2 Mout2) \<longrightarrow>
      decenter_ff_double store2 Min2 Mout2 r
        = in_store store2 Mout2 (gridded_to_fft_copy (\<lambda>v. v) (store2 Min2) (store2 Mout2) r)) \<and>
   (well_formed Mout3 \<longrightarrow>
      decenter_ff_float to_float Min3 Mout3 r = gridded_to_fft_copy to_float Min3 Mout3 r) \<and>
   (Min4 \<noteq> Mout4 \<and> well_formed (store4 Mout4) \<longrightarrow>
      decenter_cc store4 Min4 Mout4 r
        = in_store store4 Mout4 (gridded_to_fft_copy (\<lambda>v. v) (store4 Min4) (store4 Mout4) r))"
proof (intro conjI impI; (elim conjE)?)
  assume "well_formed Mout1"
  then show "decenter_fd to_double Min1 Mout1 r = gridded_to_fft_copy to_double Min1 Mout1 r"
    by (simp add: decenter_fd_def Let_def decenter_loop_closed)
next
  assume "Min2 \<noteq> Mout2" "well_formed (store2 Mout2)"
  then show "decenter_ff_double store2 Min2 Mout2 r
      = in_store store2 Mout2 (gridded_to_fft_copy (\<lambda>v. v) (store2 Min2) (store2 Mout2) r)"
    unfolding decenter_ff_double_def Let_def
    by (rule store_loop [where conv = "\<lambda>v. v"])
next
  assume "well_formed Mout3"
  then show "decenter_ff_float to_float Min3 Mout3 r = gridded_to_fft_copy to_float Min3 Mout3 r"
    by (simp add: decenter_ff_float_def Let_def decenter_loop_closed)
next
  assume "Min4 \<noteq> Mout4" "well_formed (store4 Mout4)"
  then show "decenter_cc store4 Min4 Mout4 r
      = in_store store4 Mout4 (gridded_to_fft_copy (\<lambda>v. v) (store4 Min4) (store4 Mout4) r)"
    unfolding decenter_cc_def Let_def
    by (rule store_loop [where conv = "\<lambda>v. v"])
qed

text \<open>
  The four helpers on a small input: a centred plane with the elements 10 to 15 is
  copied into an FFTW plane within the radius 1. The values are computed from the
  loops. Integers stand for \<open>float\<close> and reals for \<open>double\<close>.
\<close>

lemma well_formed_fftw_plane: "well_formed (fftw_plane [a, b, c, d, e, f])"
  by (simp add: well_formed_def fftw_plane_def)

lemma well_formed_centred_plane: "well_formed (centred_plane [a, b, c, d, e, f])"
  by (simp add: well_formed_def centred_plane_def)

lemmas decenter_eval =
  FOR_ALL_ELEMENTS_IN_FFTW_TRANSFORM_def fftw_elements_def initZeros_def centred_plane_def
  fftw_plane_def upt_rec fftw_freq_def A3D_ELEM_def DIRECT_A3D_ELEM_def
  set_DIRECT_A3D_ELEM_def direct_offset_def Let_def

lemma decenter_fd_plane:
  "decenter_fd real_of_int (centred_plane [10, 11, 12, 13, 14, 15])
     (fftw_plane [7, 7, 7, 7, 7, 7]) 1 = Inr (fftw_plane [12, 13, 14, 0, 10, 0])"
  by (simp add: decenter_fd_def decenter_eval)

lemma decenter_ff_double_plane:
  "decenter_ff_double (plane_store [10, 11, 12, 13, 14, 15 :: real] [7, 7, 7, 7, 7, 7]) 0 1 1
   = Inr ((plane_store [10, 11, 12, 13, 14, 15] [7, 7, 7, 7, 7, 7])
            (1 := fftw_plane [12, 13, 14, 0, 10, 0]))"
  by (simp add: decenter_ff_double_def plane_store_def decenter_eval)

lemma decenter_ff_float_plane:
  "decenter_ff_float (\<lambda>x :: real. \<lfloor>x\<rfloor>) (centred_plane [10, 11, 12, 13, 14, 15])
     (fftw_plane [7, 7, 7, 7, 7, 7]) 1 = Inr (fftw_plane [12, 13, 14, 0, 10, 0])"
  by (simp add: decenter_ff_float_def decenter_eval)

lemma decenter_cc_plane:
  "decenter_cc (plane_store [10, 11, 12, 13, 14, 15] [7, 7, 7, 7, 7, 7]) 0 1 1
   = Inr ((plane_store [10, 11, 12, 13, 14, 15] [7, 7, 7, 7, 7, 7])
            (1 := fftw_plane [12, 13, 14, 0, 10, 0]))"
  by (simp add: decenter_cc_def plane_store_def decenter_eval)

text \<open>
  When one array is passed as both arguments, \<open>initZeros\<close> clears it before the loop
  reads it: the helper leaves zeros.
\<close>

lemma decenter_ff_double_same_array:
  "decenter_ff_double (plane_store [10, 11, 12, 13, 14, 15 :: real] [7, 7, 7, 7, 7, 7]) 0 0 1
   = Inr ((plane_store [10, 11, 12, 13, 14, 15] [7, 7, 7, 7, 7, 7])
            (0 := centred_plane [0, 0, 0, 0, 0, 0]))"
  by (simp add: decenter_ff_double_def plane_store_def decenter_eval)

lemma decenter_cc_same_array:
  "decenter_cc (plane_store [10, 11, 12, 13, 14, 15] [7, 7, 7, 7, 7, 7]) 0 0 1
   = Inr ((plane_store [10, 11, 12, 13, 14, 15] [7, 7, 7, 7, 7, 7])
            (0 := centred_plane [0, 0, 0, 0, 0, 0]))"
  by (simp add: decenter_cc_def plane_store_def decenter_eval)

lemma plane_store_simps:
  "plane_store xs ys 0 = centred_plane xs" "plane_store xs ys 1 = fftw_plane ys"
  by (simp_all add: plane_store_def)

text \<open>
  An instance for each helper: the theorem turns the values of the helpers into values
  of the generic copy.
\<close>

theorem decenter_helpers_generic_copy_witness:
  "gridded_to_fft_copy real_of_int (centred_plane [10, 11, 12, 13, 14, 15])
      (fftw_plane [7, 7, 7, 7, 7, 7]) 1 = Inr (fftw_plane [12, 13, 14, 0, 10, 0]) \<and>
   in_store (plane_store [10, 11, 12, 13, 14, 15 :: real] [7, 7, 7, 7, 7, 7]) 1
      (gridded_to_fft_copy (\<lambda>v. v) (centred_plane [10, 11, 12, 13, 14, 15 :: real])
         (fftw_plane [7, 7, 7, 7, 7, 7]) 1)
     = Inr ((plane_store [10, 11, 12, 13, 14, 15] [7, 7, 7, 7, 7, 7])
              (1 := fftw_plane [12, 13, 14, 0, 10, 0])) \<and>
   gridded_to_fft_copy (\<lambda>x :: real. \<lfloor>x\<rfloor>) (centred_plane [10, 11, 12, 13, 14, 15])
      (fftw_plane [7, 7, 7, 7, 7, 7]) 1 = Inr (fftw_plane [12, 13, 14, 0, 10, 0]) \<and>
   in_store (plane_store [10, 11, 12, 13, 14, 15 :: complex] [7, 7, 7, 7, 7, 7]) 1
      (gridded_to_fft_copy (\<lambda>v. v) (centred_plane [10, 11, 12, 13, 14, 15 :: complex])
         (fftw_plane [7, 7, 7, 7, 7, 7]) 1)
     = Inr ((plane_store [10, 11, 12, 13, 14, 15] [7, 7, 7, 7, 7, 7])
              (1 := fftw_plane [12, 13, 14, 0, 10, 0]))"
proof -
  note copy = decenter_helpers_generic_copy
      [where ?Mout1.0 = "fftw_plane [7, 7, 7, 7, 7, 7]" and to_double = real_of_int
         and ?Min1.0 = "centred_plane [10, 11, 12, 13, 14, 15]" and r = 1
         and ?store2.0 = "plane_store [10, 11, 12, 13, 14, 15 :: real] [7, 7, 7, 7, 7, 7]"
         and ?Min2.0 = 0 and ?Mout2.0 = 1
         and ?Mout3.0 = "fftw_plane [7, 7, 7, 7, 7, 7]" and to_float = "\<lambda>x :: real. \<lfloor>x\<rfloor>"
         and ?Min3.0 = "centred_plane [10, 11, 12, 13, 14, 15]"
         and ?store4.0 = "plane_store [10, 11, 12, 13, 14, 15 :: complex] [7, 7, 7, 7, 7, 7]"
         and ?Min4.0 = 0 and ?Mout4.0 = 1]
  show ?thesis
  proof (intro conjI)
    show "gridded_to_fft_copy real_of_int (centred_plane [10, 11, 12, 13, 14, 15])
        (fftw_plane [7, 7, 7, 7, 7, 7]) 1 = Inr (fftw_plane [12, 13, 14, 0, 10, 0])"
      using copy [THEN conjunct1, rule_format, OF well_formed_fftw_plane] decenter_fd_plane
      by simp
    show "in_store (plane_store [10, 11, 12, 13, 14, 15 :: real] [7, 7, 7, 7, 7, 7]) 1
        (gridded_to_fft_copy (\<lambda>v. v) (centred_plane [10, 11, 12, 13, 14, 15 :: real])
           (fftw_plane [7, 7, 7, 7, 7, 7]) 1)
       = Inr ((plane_store [10, 11, 12, 13, 14, 15] [7, 7, 7, 7, 7, 7])
                (1 := fftw_plane [12, 13, 14, 0, 10, 0]))"
      using copy [THEN conjunct2, THEN conjunct1] decenter_ff_double_plane
      by (simp add: plane_store_simps well_formed_fftw_plane)
    show "gridded_to_fft_copy (\<lambda>x :: real. \<lfloor>x\<rfloor>) (centred_plane [10, 11, 12, 13, 14, 15])
        (fftw_plane [7, 7, 7, 7, 7, 7]) 1 = Inr (fftw_plane [12, 13, 14, 0, 10, 0])"
      using copy [THEN conjunct2, THEN conjunct2, THEN conjunct1, rule_format,
          OF well_formed_fftw_plane] decenter_ff_float_plane
      by simp
    show "in_store (plane_store [10, 11, 12, 13, 14, 15 :: complex] [7, 7, 7, 7, 7, 7]) 1
        (gridded_to_fft_copy (\<lambda>v. v) (centred_plane [10, 11, 12, 13, 14, 15 :: complex])
           (fftw_plane [7, 7, 7, 7, 7, 7]) 1)
       = Inr ((plane_store [10, 11, 12, 13, 14, 15] [7, 7, 7, 7, 7, 7])
                (1 := fftw_plane [12, 13, 14, 0, 10, 0]))"
      using copy [THEN conjunct2, THEN conjunct2, THEN conjunct2] decenter_cc_plane
      by (simp add: plane_store_simps well_formed_fftw_plane)
  qed
qed

lemma copy_shape:
  "gridded_to_fft_copy conv Min' Mout r = Inr M \<Longrightarrow> same_shape M Mout"
  by (auto simp add: gridded_to_fft_copy_def same_shape_def split: if_splits)

text \<open>
  The copy, and with it each helper, returns an array exactly when every element it
  has to read is inside the buffer of the input.
\<close>

lemma copy_returns:
  "(\<exists>M. gridded_to_fft_copy conv Min' Mout r = Inr M) \<longleftrightarrow>
   list_all (readable Min') (filter (inside r) (fftw_frequencies Mout))"
  by (simp add: gridded_to_fft_copy_def)

text \<open>
  Inside the box of a well-formed array, the unchecked read is the element at the
  logical frequency. So on an input that covers the call the copy returns, and every
  element of its result is as promised.
\<close>

lemma A3D_ELEM_in_box:
  assumes wf: "well_formed V" and box: "in_box V (kp, ip, jp)"
  shows "\<exists>v. logical_elem V (kp, ip, jp) = Some v \<and> A3D_ELEM V kp ip jp = Inr v"
proof -
  define k where "k = nat (kp - zinit V)"
  define i where "i = nat (ip - yinit V)"
  define j where "j = nat (jp - xinit V)"
  have ints: "kp - zinit V = int k" "ip - yinit V = int i" "jp - xinit V = int j"
    using box by (simp_all add: in_box_def k_def i_def j_def)
  have lt: "k < zdim V" "i < ydim V" "j < xdim V"
    using box unfolding in_box_def k_def i_def j_def by auto
  have off: "direct_offset V (int k) (int i) (int j) = int (k * (ydim V * xdim V) + i * xdim V + j)"
    by (simp add: direct_offset_def)
  have bound: "k * (ydim V * xdim V) + i * xdim V + j < length (vals V)"
    using offset_bound [OF lt] wf by (simp add: well_formed_def mult.assoc)
  have "A3D_ELEM V kp ip jp = Inr (vals V ! (k * (ydim V * xdim V) + i * xdim V + j))"
    unfolding A3D_ELEM_def DIRECT_A3D_ELEM_def ints off Let_def using bound
    by (simp only: of_nat_less_iff of_nat_0_le_iff nat_int simp_thms if_True)
  moreover have "logical_elem V (kp, ip, jp) = Some (vals V ! (k * (ydim V * xdim V) + i * xdim V + j))"
    using box by (simp add: logical_elem_def k_def i_def j_def)
  ultimately show ?thesis by simp
qed

lemma covers_readable:
  assumes "well_formed Min'" "covers Min' Mout r"
  shows "list_all (readable Min') (filter (inside r) (fftw_frequencies Mout))"
proof -
  have "readable Min' f" if "in_box Min' f" for f
  proof -
    obtain kp ip jp where f: "f = (kp, ip, jp)" by (cases f)
    from A3D_ELEM_in_box [OF assms(1) that [unfolded f]] show ?thesis
      by (auto simp add: readable_def f)
  qed
  with assms(2) show ?thesis
    unfolding covers_def list_all_iff by blast
qed

lemma copy_total:
  assumes wfi: "well_formed Min'" and wf: "well_formed Mout" and cov: "covers Min' Mout r"
  shows "\<exists>M. gridded_to_fft_copy conv Min' Mout r = Inr M \<and> same_shape M Mout \<and>
           (\<forall>k<zdim Mout. \<forall>i<ydim Mout. \<forall>j<xdim Mout. decentered_at conv Min' r M k i j)"
proof -
  have rd: "list_all (readable Min') (filter (inside r) (fftw_frequencies Mout))"
    using wfi cov by (rule covers_readable)
  then obtain M where res: "gridded_to_fft_copy conv Min' Mout r = Inr M"
    by (simp add: gridded_to_fft_copy_def)
  then have shape: "same_shape M Mout" by (rule copy_shape)
  have "decentered_at conv Min' r M k i j" if k: "k < zdim Mout" and i: "i < ydim Mout" and j: "j < xdim Mout" for k i j
  proof -
    define kp where "kp = fftw_freq (xdim M) (zdim M) k"
    define ip where "ip = fftw_freq (xdim M) (ydim M) i"
    have old: "copied_at conv Min' r M k i j"
      using wf res k i j by (rule copy_decentered)
    show ?thesis
    proof (cases "kp * kp + ip * ip + int j * int j > r")
      case True
      with old show ?thesis
        by (simp add: copied_at_def decentered_at_def Let_def kp_def ip_def)
    next
      case False
      then have ins: "inside r (kp, ip, int j)" by (simp add: inside_def)
      have "(kp, ip, int j) \<in> set (fftw_frequencies Mout)"
      proof -
        have "(k, i, j) \<in> set (fftw_elements Mout)"
          using k i j by (force simp add: fftw_elements_def image_iff)
        then show ?thesis
          using shape by (force simp add: fftw_frequencies_def kp_def ip_def same_shape_def)
      qed
      with cov ins have "in_box Min' (kp, ip, int j)"
        unfolding covers_def list_all_iff by simp
      from A3D_ELEM_in_box [OF wfi this] obtain v where
        v: "logical_elem Min' (kp, ip, int j) = Some v" "A3D_ELEM Min' kp ip (int j) = Inr v"
        by blast
      with old False show ?thesis
        by (simp add: copied_at_def decentered_at_def Let_def kp_def ip_def)
    qed
  qed
  with res shape show ?thesis by blast
qed

lemma copy_well_formed:
  "well_formed Mout \<Longrightarrow> gridded_to_fft_copy conv Min' Mout r = Inr M \<Longrightarrow> well_formed M"
  by (auto simp add: gridded_to_fft_copy_def well_formed_def fftw_frequencies_eq mult.assoc
      split: if_splits)

lemma store_copy_total:
  assumes "well_formed (store Min')" and "well_formed (store Mout)"
    and "covers (store Min') (store Mout) r"
    and "res = in_store store Mout (gridded_to_fft_copy conv (store Min') (store Mout) r)"
  shows "\<exists>M. res = Inr (store(Mout := M)) \<and> same_shape M (store Mout) \<and> well_formed M \<and>
           (\<forall>k<zdim (store Mout). \<forall>i<ydim (store Mout). \<forall>j<xdim (store Mout).
              decentered_at conv (store Min') r M k i j)"
proof -
  from copy_total [OF assms(1-3), where conv = conv] obtain M where
    M: "gridded_to_fft_copy conv (store Min') (store Mout) r = Inr M" "same_shape M (store Mout)"
      "\<forall>k<zdim (store Mout). \<forall>i<ydim (store Mout). \<forall>j<xdim (store Mout).
         decentered_at conv (store Min') r M k i j"
    by blast
  have "well_formed M" using assms(2) M(1) by (rule copy_well_formed)
  moreover have "res = Inr (store(Mout := M))"
    by (simp add: assms(4) M(1) in_store_def)
  ultimately show ?thesis using M(2,3) by blast
qed

lemma value_copy_total:
  assumes "well_formed Min'" and "well_formed Mout" and "covers Min' Mout r"
    and "res = gridded_to_fft_copy conv Min' Mout r"
  shows "\<exists>M. res = Inr M \<and> same_shape M Mout \<and> well_formed M \<and>
           (\<forall>k<zdim Mout. \<forall>i<ydim Mout. \<forall>j<xdim Mout. decentered_at conv Min' r M k i j)"
proof -
  from copy_total [OF assms(1-3), where conv = conv] obtain M where
    M: "gridded_to_fft_copy conv Min' Mout r = Inr M" "same_shape M Mout"
      "\<forall>k<zdim Mout. \<forall>i<ydim Mout. \<forall>j<xdim Mout. decentered_at conv Min' r M k i j"
    by blast
  have "well_formed M" using assms(2) M(1) by (rule copy_well_formed)
  then show ?thesis using M assms(4) by auto
qed

text \<open>
  C7. A decenter helper is called with an input array and an output array that satisfy
  the class invariant, the input covering every frequency of the output inside the
  radius; for the two helpers whose arguments have one type, the input and the output
  are different objects. Then the call returns. The output array keeps its shape and
  satisfies the class invariant, and at every index \<open>(k, i, j)\<close> of its shape the
  element whose logical frequency has \<open>kp\<^sup>2 + ip\<^sup>2 + jp\<^sup>2 > my_rmax2\<close> is zero, and every
  other element is the input element at that logical frequency: exactly that element
  for the first \<open>decenter_ff\<close> and for \<open>decenter_cc\<close>, and that element converted to the
  element type of the output for \<open>decenter_fd\<close> and the second \<open>decenter_ff\<close>. For the
  helpers on the store, no other array changes.
\<close>

theorem decenter_support:
  "(well_formed Min1 \<and> well_formed Mout1 \<and> covers Min1 Mout1 r \<longrightarrow>
      (\<exists>M. decenter_fd to_double Min1 Mout1 r = Inr M \<and> same_shape M Mout1 \<and> well_formed M \<and>
         (\<forall>k<zdim Mout1. \<forall>i<ydim Mout1. \<forall>j<xdim Mout1.
            decentered_at to_double Min1 r M k i j))) \<and>
   (Min2 \<noteq> Mout2 \<and> well_formed (store2 Min2) \<and> well_formed (store2 Mout2) \<and>
    covers (store2 Min2) (store2 Mout2) r \<longrightarrow>
      (\<exists>M. decenter_ff_double store2 Min2 Mout2 r = Inr (store2(Mout2 := M)) \<and>
         same_shape M (store2 Mout2) \<and> well_formed M \<and>
         (\<forall>k<zdim (store2 Mout2). \<forall>i<ydim (store2 Mout2). \<forall>j<xdim (store2 Mout2).
            decentered_at (\<lambda>v. v) (store2 Min2) r M k i j))) \<and>
   (well_formed Min3 \<and> well_formed Mout3 \<and> covers Min3 Mout3 r \<longrightarrow>
      (\<exists>M. decenter_ff_float to_float Min3 Mout3 r = Inr M \<and> same_shape M Mout3 \<and>
         well_formed M \<and>
         (\<forall>k<zdim Mout3. \<forall>i<ydim Mout3. \<forall>j<xdim Mout3.
            decentered_at to_float Min3 r M k i j))) \<and>
   (Min4 \<noteq> Mout4 \<and> well_formed (store4 Min4) \<and> well_formed (store4 Mout4) \<and>
    covers (store4 Min4) (store4 Mout4) r \<longrightarrow>
      (\<exists>M. decenter_cc store4 Min4 Mout4 r = Inr (store4(Mout4 := M)) \<and>
         same_shape M (store4 Mout4) \<and> well_formed M \<and>
         (\<forall>k<zdim (store4 Mout4). \<forall>i<ydim (store4 Mout4). \<forall>j<xdim (store4 Mout4).
            decentered_at (\<lambda>v. v) (store4 Min4) r M k i j)))"
proof (intro conjI impI; elim conjE)
  assume wf: "well_formed Min1" "well_formed Mout1" "covers Min1 Mout1 r"
  have "decenter_fd to_double Min1 Mout1 r = gridded_to_fft_copy to_double Min1 Mout1 r"
    using wf(2) by (simp add: decenter_fd_def Let_def decenter_loop_closed)
  with wf show "\<exists>M. decenter_fd to_double Min1 Mout1 r = Inr M \<and> same_shape M Mout1 \<and>
      well_formed M \<and>
      (\<forall>k<zdim Mout1. \<forall>i<ydim Mout1. \<forall>j<xdim Mout1. decentered_at to_double Min1 r M k i j)"
    by (rule value_copy_total)
next
  assume "Min2 \<noteq> Mout2" and wf: "well_formed (store2 Min2)" "well_formed (store2 Mout2)"
    and cov: "covers (store2 Min2) (store2 Mout2) r"
  have "decenter_ff_double store2 Min2 Mout2 r
      = in_store store2 Mout2 (gridded_to_fft_copy (\<lambda>v. v) (store2 Min2) (store2 Mout2) r)"
    unfolding decenter_ff_double_def Let_def
    using \<open>Min2 \<noteq> Mout2\<close> wf(2) by (rule store_loop [where conv = "\<lambda>v. v"])
  with wf cov show "\<exists>M. decenter_ff_double store2 Min2 Mout2 r = Inr (store2(Mout2 := M)) \<and>
      same_shape M (store2 Mout2) \<and> well_formed M \<and>
      (\<forall>k<zdim (store2 Mout2). \<forall>i<ydim (store2 Mout2). \<forall>j<xdim (store2 Mout2).
         decentered_at (\<lambda>v. v) (store2 Min2) r M k i j)"
    by (rule store_copy_total)
next
  assume wf: "well_formed Min3" "well_formed Mout3" "covers Min3 Mout3 r"
  have "decenter_ff_float to_float Min3 Mout3 r = gridded_to_fft_copy to_float Min3 Mout3 r"
    using wf(2) by (simp add: decenter_ff_float_def Let_def decenter_loop_closed)
  with wf show "\<exists>M. decenter_ff_float to_float Min3 Mout3 r = Inr M \<and> same_shape M Mout3 \<and>
      well_formed M \<and>
      (\<forall>k<zdim Mout3. \<forall>i<ydim Mout3. \<forall>j<xdim Mout3. decentered_at to_float Min3 r M k i j)"
    by (rule value_copy_total)
next
  assume "Min4 \<noteq> Mout4" and wf: "well_formed (store4 Min4)" "well_formed (store4 Mout4)"
    and cov: "covers (store4 Min4) (store4 Mout4) r"
  have "decenter_cc store4 Min4 Mout4 r
      = in_store store4 Mout4 (gridded_to_fft_copy (\<lambda>v. v) (store4 Min4) (store4 Mout4) r)"
    unfolding decenter_cc_def Let_def
    using \<open>Min4 \<noteq> Mout4\<close> wf(2) by (rule store_loop [where conv = "\<lambda>v. v"])
  with wf cov show "\<exists>M. decenter_cc store4 Min4 Mout4 r = Inr (store4(Mout4 := M)) \<and>
      same_shape M (store4 Mout4) \<and> well_formed M \<and>
      (\<forall>k<zdim (store4 Mout4). \<forall>i<ydim (store4 Mout4). \<forall>j<xdim (store4 Mout4).
         decentered_at (\<lambda>v. v) (store4 Min4) r M k i j)"
    by (rule store_copy_total)
qed

lemma covers_planes: "covers (centred_plane [a, b, c, d, e, f]) (fftw_plane [a', b', c', d', e', f']) 1"
  by (simp add: covers_def fftw_frequencies_def fftw_elements_def fftw_plane_def
      centred_plane_def upt_rec fftw_freq_def inside_def in_box_def)

lemma fun_upd_inject: "f(a := x) = f(a := y) \<Longrightarrow> x = y"
  by (metis fun_upd_same)

text \<open>
  An instance for each helper, on the planes above, at the output element \<open>(0, 2, 0)\<close>:
  its logical frequency is \<open>(0, -1, 0)\<close>, inside the radius 1, and it holds the input
  element 10 of that frequency. The element \<open>(0, 1, 1)\<close> has the frequency \<open>(0, 1, 1)\<close>,
  outside the radius, and is zero.
\<close>

theorem decenter_support_witness:
  "decentered_at real_of_int (centred_plane [10, 11, 12, 13, 14, 15]) 1
      (fftw_plane [12, 13, 14, 0, 10, 0]) 0 2 0 \<and>
   decentered_at (\<lambda>v. v) (centred_plane [10, 11, 12, 13, 14, 15 :: real]) 1
      (fftw_plane [12, 13, 14, 0, 10, 0]) 0 2 0 \<and>
   decentered_at (\<lambda>x :: real. \<lfloor>x\<rfloor>) (centred_plane [10, 11, 12, 13, 14, 15]) 1
      (fftw_plane [12, 13, 14, 0, 10, 0]) 0 2 0 \<and>
   decentered_at (\<lambda>v. v) (centred_plane [10, 11, 12, 13, 14, 15 :: complex]) 1
      (fftw_plane [12, 13, 14, 0, 10, 0]) 0 2 0 \<and>
   decentered_at real_of_int (centred_plane [10, 11, 12, 13, 14, 15]) 1
      (fftw_plane [12, 13, 14, 0, 10, 0]) 0 1 1 \<and>
   logical_elem (centred_plane [10, 11, 12, 13, 14, 15 :: real]) (0, - 1, 0) = Some 10 \<and>
   DIRECT_A3D_ELEM (fftw_plane [12, 13, 14, 0, 10, 0 :: real]) 0 2 0 = Inr 10 \<and>
   DIRECT_A3D_ELEM (fftw_plane [12, 13, 14, 0, 10, 0 :: real]) 0 1 1 = Inr 0"
proof -
  note support = decenter_support
      [where ?Mout1.0 = "fftw_plane [7, 7, 7, 7, 7, 7]" and to_double = real_of_int
         and ?Min1.0 = "centred_plane [10, 11, 12, 13, 14, 15]" and r = 1
         and ?store2.0 = "plane_store [10, 11, 12, 13, 14, 15 :: real] [7, 7, 7, 7, 7, 7]"
         and ?Min2.0 = 0 and ?Mout2.0 = 1
         and ?Mout3.0 = "fftw_plane [7, 7, 7, 7, 7, 7]" and to_float = "\<lambda>x :: real. \<lfloor>x\<rfloor>"
         and ?Min3.0 = "centred_plane [10, 11, 12, 13, 14, 15]"
         and ?store4.0 = "plane_store [10, 11, 12, 13, 14, 15 :: complex] [7, 7, 7, 7, 7, 7]"
         and ?Min4.0 = 0 and ?Mout4.0 = 1]
  have dims: "zdim (fftw_plane xs) = 1" "ydim (fftw_plane xs) = 3" "xdim (fftw_plane xs) = 2"
    for xs :: "'a list"
    by (simp_all add: fftw_plane_def)
  note facts = well_formed_fftw_plane well_formed_centred_plane covers_planes plane_store_simps
  have fd: "decentered_at real_of_int (centred_plane [10, 11, 12, 13, 14, 15]) 1
      (fftw_plane [12, 13, 14, 0, 10, 0]) k i j" if "k < 1" "i < 3" "j < 2" for k i j
    using support [THEN conjunct1] that by (auto simp add: facts decenter_fd_plane dims)
  have ffd: "decentered_at (\<lambda>v. v) (centred_plane [10, 11, 12, 13, 14, 15 :: real]) 1
      (fftw_plane [12, 13, 14, 0, 10, 0]) k i j" if "k < 1" "i < 3" "j < 2" for k i j
    using support [THEN conjunct2, THEN conjunct1] that
    by (auto simp add: facts decenter_ff_double_plane dims dest!: fun_upd_inject)
  have fff: "decentered_at (\<lambda>x :: real. \<lfloor>x\<rfloor>) (centred_plane [10, 11, 12, 13, 14, 15]) 1
      (fftw_plane [12, 13, 14, 0, 10, 0]) k i j" if "k < 1" "i < 3" "j < 2" for k i j
    using support [THEN conjunct2, THEN conjunct2, THEN conjunct1] that
    by (auto simp add: facts decenter_ff_float_plane dims)
  have cc: "decentered_at (\<lambda>v. v) (centred_plane [10, 11, 12, 13, 14, 15 :: complex]) 1
      (fftw_plane [12, 13, 14, 0, 10, 0]) k i j" if "k < 1" "i < 3" "j < 2" for k i j
    using support [THEN conjunct2, THEN conjunct2, THEN conjunct2] that
    by (auto simp add: facts decenter_cc_plane dims dest!: fun_upd_inject)
  show ?thesis
  proof (intro conjI)
    show "logical_elem (centred_plane [10, 11, 12, 13, 14, 15 :: real]) (0, - 1, 0) = Some 10"
      by (simp add: logical_elem_def in_box_def centred_plane_def)
    show "DIRECT_A3D_ELEM (fftw_plane [12, 13, 14, 0, 10, 0 :: real]) 0 2 0 = Inr 10"
      by (simp add: DIRECT_A3D_ELEM_def direct_offset_def fftw_plane_def)
    show "DIRECT_A3D_ELEM (fftw_plane [12, 13, 14, 0, 10, 0 :: real]) 0 1 1 = Inr 0"
      by (simp add: DIRECT_A3D_ELEM_def direct_offset_def fftw_plane_def)
  qed (simp_all add: fd ffd fff cc)
qed

subsection \<open>Hermitian symmetry\<close>

lemma averagedD_partner: "averagedD D (- k, - i, 0) = cnj (averagedD D (k, i, 0))"
  by (simp add: averagedD_def add.commute)

lemma averagedD_origin: "cnj (averagedD D (0, 0, 0)) = averagedD D (0, 0, 0)"
  using averagedD_partner [of D 0 0] by simp

lemma averagedW_partner: "averagedW W (- k, - i, 0) = averagedW W (k, i, 0)"
  by (simp add: averagedW_def add.commute)

lemma touched_partner: "touched ps (- k, - i, 0) = touched ps (k, i, 0)"
  by (auto simp add: touched_def)

lemma touched_snoc:
  "touched (ps @ [(kp, ip)]) v \<longleftrightarrow> touched ps v \<or> v = (kp, ip, 0) \<or> v = (- kp, - ip, 0)"
  by (cases v) (auto simp add: touched_def)

lemma enforce_loop:
  "foldl enforce_at (D, W) ps =
   ((\<lambda>v. if touched ps v then averagedD D v else D v),
    (\<lambda>v. if touched ps v then averagedW W v else W v))"
proof (induction ps rule: rev_induct)
  case Nil
  show ?case by (simp add: touched_def)
next
  case (snoc p ps)
  obtain kp ip where p: "p = (kp, ip)" by (cases p)
  let ?D = "\<lambda>v. if touched ps v then averagedD D v else D v"
  let ?W = "\<lambda>v. if touched ps v then averagedW W v else W v"
  have d: "(?D (kp, ip, 0) + cnj (?D (- kp, - ip, 0))) / 2 = averagedD D (kp, ip, 0)"
    by (simp add: touched_partner averagedD_partner) (simp add: averagedD_def)
  have w: "(?W (kp, ip, 0) + ?W (- kp, - ip, 0)) / 2 = averagedW W (kp, ip, 0)"
    by (simp add: touched_partner averagedW_partner) (simp add: averagedW_def)
  have "foldl enforce_at (D, W) (ps @ [p]) = enforce_at (?D, ?W) (kp, ip)"
    by (simp add: snoc p)
  also have "\<dots> = (?D((kp, ip, 0) := averagedD D (kp, ip, 0), (- kp, - ip, 0) := cnj (averagedD D (kp, ip, 0))),
                     ?W((kp, ip, 0) := averagedW W (kp, ip, 0), (- kp, - ip, 0) := averagedW W (kp, ip, 0)))"
    unfolding enforce_at_def by (simp only: prod.case Let_def d w)
  also have "\<dots> = ((\<lambda>v. if touched (ps @ [p]) v then averagedD D v else D v),
                     (\<lambda>v. if touched (ps @ [p]) v then averagedW W v else W v))"
    unfolding p
    by (auto simp add: fun_eq_iff touched_snoc averagedD_partner averagedW_partner averagedD_origin)
  finally show ?case .
qed

lemma plane_voxels_iff:
  "(kp, ip) \<in> set (plane_voxels side) \<longleftrightarrow>
   - (side div 2) \<le> kp \<and> kp < side div 2 \<and> - (side div 2) \<le> ip \<and> ip < side div 2"
  by (force simp add: plane_voxels_def image_iff)

text \<open>
  C3. After \<open>enforceHermitianSymmetry\<close>, for every \<open>(kp, ip)\<close> of the grid,
  \<open>D(kp,ip,0)\<close> is the conjugate of \<open>D(-kp,-ip,0)\<close> and the two weights are equal; the
  value written at \<open>(kp,ip,0)\<close> is the average of \<open>D(kp,ip,0)\<close> and \<open>conj(D(-kp,-ip,0))\<close>
  before the call, and the weight written is the average of the two weights before
  the call. Every voxel with \<open>jp \<noteq> 0\<close> is unchanged.
\<close>

theorem enforceHermitianSymmetry_closure:
  assumes "enforceHermitianSymmetry side (D, W) = (D', W')"
    and "- (side div 2) \<le> kp" and "kp < side div 2"
    and "- (side div 2) \<le> ip" and "ip < side div 2"
  shows "D' (kp, ip, 0) = cnj (D' (- kp, - ip, 0)) \<and>
         W' (kp, ip, 0) = W' (- kp, - ip, 0) \<and>
         D' (kp, ip, 0) = (D (kp, ip, 0) + cnj (D (- kp, - ip, 0))) / 2 \<and>
         W' (kp, ip, 0) = (W (kp, ip, 0) + W (- kp, - ip, 0)) / 2 \<and>
         (\<forall>k i j. j \<noteq> 0 \<longrightarrow> D' (k, i, j) = D (k, i, j) \<and> W' (k, i, j) = W (k, i, j))"
proof -
  have mem: "(kp, ip) \<in> set (plane_voxels side)"
    using assms(2-5) by (simp add: plane_voxels_iff)
  have D': "D' = (\<lambda>v. if touched (plane_voxels side) v then averagedD D v else D v)"
    and W': "W' = (\<lambda>v. if touched (plane_voxels side) v then averagedW W v else W v)"
    using assms(1) by (simp_all add: enforceHermitianSymmetry_def enforce_loop)
  have here: "touched (plane_voxels side) (kp, ip, 0)"
    using mem by (simp add: touched_def)
  then have there: "touched (plane_voxels side) (- kp, - ip, 0)"
    by (simp only: touched_partner)
  have away: "\<not> touched (plane_voxels side) (k, i, j)" if "j \<noteq> 0" for k i j
    using that by (simp add: touched_def)
  show ?thesis
    unfolding D' W'
    by (simp add: here there away averagedD_partner averagedW_partner)
       (simp add: averagedD_def averagedW_def)
qed

text \<open>
  An instance on a grid of side 2, at \<open>(kp, ip) = (-1, 0)\<close>: the data grid holds
  \<open>-1 - 3\<i>\<close> there and \<open>1 + 3\<i>\<close> at the partner \<open>(1, 0, 0)\<close>, whose conjugate is
  \<open>1 - 3\<i>\<close>; the average is \<open>-3\<i>\<close>. The weights 4 and 6 become 5.
\<close>

theorem enforceHermitianSymmetry_closure_witness:
  "fst (enforceHermitianSymmetry 2 (ramp_data, ramp_weight)) (- 1, 0, 0) = Complex 0 (- 3) \<and>
   fst (enforceHermitianSymmetry 2 (ramp_data, ramp_weight)) (- 1, 0, 0)
     = cnj (fst (enforceHermitianSymmetry 2 (ramp_data, ramp_weight)) (1, 0, 0)) \<and>
   snd (enforceHermitianSymmetry 2 (ramp_data, ramp_weight)) (- 1, 0, 0) = 5 \<and>
   snd (enforceHermitianSymmetry 2 (ramp_data, ramp_weight)) (1, 0, 0) = 5 \<and>
   fst (enforceHermitianSymmetry 2 (ramp_data, ramp_weight)) (- 1, 0, 1) = ramp_data (- 1, 0, 1)"
  using enforceHermitianSymmetry_closure
    [of 2 ramp_data ramp_weight
        "fst (enforceHermitianSymmetry 2 (ramp_data, ramp_weight))"
        "snd (enforceHermitianSymmetry 2 (ramp_data, ramp_weight))" "- 1" 0]
  by (simp add: ramp_data_def ramp_weight_def complex_eq_iff)

subsection \<open>Insertion of slices\<close>

text \<open>
  An insertion adds to each voxel the sum, over the pixels and their shares, of what
  lands there; the sum is additive in the value and in the weight of the pixel.
\<close>

lemma add_at_eq:
  "add_at rmax v w (D, W) ct =
   ((\<lambda>c0. D c0 + data_term rmax v c0 ct), (\<lambda>c0. W c0 + weight_term rmax w c0 ct))"
  by (cases ct) (auto simp add: add_at_def data_term_def weight_term_def lands_def folded_def
      Let_def fun_eq_iff split: prod.splits)

lemma foldl_add_at:
  "foldl (add_at rmax v w) (D, W) ts =
   ((\<lambda>c0. D c0 + (\<Sum>ct\<leftarrow>ts. data_term rmax v c0 ct)),
    (\<lambda>c0. W c0 + (\<Sum>ct\<leftarrow>ts. weight_term rmax w c0 ct)))"
proof (induction ts arbitrary: D W)
  case Nil
  show ?case by simp
next
  case (Cons ct ts)
  show ?case
    by (simp only: foldl_Cons add_at_eq Cons.IH) (simp add: add.assoc)
qed

lemma insert_pixel_eq:
  "insert_pixel g A F Mw G p =
   foldl (add_at (g_r_max g) (F p) (pixel_weight Mw p)) G (pixel_targets g A p)"
  by (cases p) (simp add: insert_pixel_def pixel_targets_def pixel_weight_def Let_def)

lemma insert_pixel_sums:
  "insert_pixel g A F Mw (D, W) p =
   ((\<lambda>c0. D c0 + data_sum g A (F p) p c0),
    (\<lambda>c0. W c0 + weight_sum g A (pixel_weight Mw p) p c0))"
  by (simp only: insert_pixel_eq foldl_add_at data_sum_def weight_sum_def)

lemma foldl_insert_pixel:
  "foldl (insert_pixel g A F Mw) (D, W) ps =
   ((\<lambda>c0. D c0 + (\<Sum>p\<leftarrow>ps. data_sum g A (F p) p c0)),
    (\<lambda>c0. W c0 + (\<Sum>p\<leftarrow>ps. weight_sum g A (pixel_weight Mw p) p c0)))"
proof (induction ps arbitrary: D W)
  case Nil
  show ?case by simp
next
  case (Cons p ps)
  show ?case
    by (simp only: foldl_Cons insert_pixel_sums Cons.IH) (simp add: add.assoc)
qed

lemma data_term_add:
  "data_term rmax (v1 + v2) c0 ct = data_term rmax v1 c0 ct + data_term rmax v2 c0 ct"
  by (cases ct) (simp add: data_term_def algebra_simps)

lemma weight_term_add:
  "weight_term rmax (w1 + w2) c0 ct = weight_term rmax w1 c0 ct + weight_term rmax w2 c0 ct"
  by (cases ct) (simp add: weight_term_def algebra_simps)

lemma data_sum_add: "data_sum g A (v1 + v2) p c0 = data_sum g A v1 p c0 + data_sum g A v2 p c0"
  by (simp add: data_sum_def data_term_add sum_list_addf)

lemma weight_sum_add:
  "weight_sum g A (w1 + w2) p c0 = weight_sum g A w1 p c0 + weight_sum g A w2 p c0"
  by (simp add: weight_sum_def weight_term_add sum_list_addf)




text \<open>
  On the other reading of the missing body, step 4 of the spec, where the sample is
  multiplied by its weight, the two insertions are the single insertion of the weighted
  mean \<open>(w1 \<cdot> F1 + w2 \<cdot> F2) / (w1 + w2)\<close> of the two images (any value where
  \<open>w1 + w2 = 0\<close>) with the weight map \<open>w1 + w2\<close>, for weight maps that are nowhere
  negative on the image.
\<close>

lemma insert_pixel_premultiplied_eq:
  "insert_pixel_premultiplied g A F Mw =
   insert_pixel g A (\<lambda>p. F p * of_real (pixel_weight Mw p)) Mw"
  by (auto simp add: insert_pixel_premultiplied_def insert_pixel_def pixel_weight_def Let_def
      fun_eq_iff)

lemma weighted_mean_times:
  fixes v1 v2 :: complex
  assumes "0 \<le> w1" "0 \<le> w2"
  shows "(of_real w1 * v1 + of_real w2 * v2) / of_real (w1 + w2) * of_real (w1 + w2)
         = v1 * of_real w1 + v2 * of_real w2"
proof (cases "w1 + w2 = 0")
  case True
  with assms have "w1 = 0" "w2 = 0" by simp_all
  then show ?thesis by simp
next
  case False
  then have nz: "(of_real (w1 + w2) :: complex) \<noteq> 0"
    by (simp only: of_real_eq_0_iff not_False_eq_True)
  have "(of_real w1 * v1 + of_real w2 * v2) / of_real (w1 + w2) * of_real (w1 + w2)
      = of_real w1 * v1 + of_real w2 * v2"
    by (simp only: times_divide_eq_left nonzero_mult_div_cancel_right [OF nz])
  then show ?thesis by (simp only: mult.commute)
qed

lemma backproject_premultiplied_weighted_mean:
  assumes "pixels F2 = pixels F1"
    and "\<forall>p \<in> set (pixels F1). 0 \<le> w1 p \<and> 0 \<le> w2 p"
  shows "spec_backproject_premultiplied g F2 A inv' (Some w2)
           (spec_backproject_premultiplied g F1 A inv' (Some w1) G)
       = spec_backproject_premultiplied g
           \<lparr>pixels = pixels F1,
            pixel_value =
              (\<lambda>p. (of_real (w1 p) * pixel_value F1 p + of_real (w2 p) * pixel_value F2 p)
                     / of_real (w1 p + w2 p))\<rparr>
           A inv' (Some (sum_weights w1 w2)) G"
proof -
  obtain D W where G: "G = (D, W)" by (cases G)
  note px = assms(1) and nonneg = assms(2)
  define B where "B = (if inv' then mat_inverse A else A)"
  have data: "(\<Sum>p\<leftarrow>pixels F1. data_sum g B (pixel_value F1 p * of_real (w1 p)) p c0)
      + (\<Sum>p\<leftarrow>pixels F1. data_sum g B (pixel_value F2 p * of_real (w2 p)) p c0)
      = (\<Sum>p\<leftarrow>pixels F1. data_sum g B
            ((of_real (w1 p) * pixel_value F1 p + of_real (w2 p) * pixel_value F2 p)
               / of_real (w1 p + w2 p) * of_real (w1 p + w2 p)) p c0)" for c0
  proof -
    have "(\<Sum>p\<leftarrow>pixels F1. data_sum g B
            ((of_real (w1 p) * pixel_value F1 p + of_real (w2 p) * pixel_value F2 p)
               / of_real (w1 p + w2 p) * of_real (w1 p + w2 p)) p c0)
        = (\<Sum>p\<leftarrow>pixels F1. data_sum g B
            (pixel_value F1 p * of_real (w1 p) + pixel_value F2 p * of_real (w2 p)) p c0)"
    proof (intro arg_cong [where f = sum_list] map_cong refl)
      fix p
      assume "p \<in> set (pixels F1)"
      with nonneg have "0 \<le> w1 p" "0 \<le> w2 p" by simp_all
      then show "data_sum g B
            ((of_real (w1 p) * pixel_value F1 p + of_real (w2 p) * pixel_value F2 p)
               / of_real (w1 p + w2 p) * of_real (w1 p + w2 p)) p c0
          = data_sum g B
            (pixel_value F1 p * of_real (w1 p) + pixel_value F2 p * of_real (w2 p)) p c0"
        by (simp only: weighted_mean_times)
    qed
    also have "\<dots> = (\<Sum>p\<leftarrow>pixels F1. data_sum g B (pixel_value F1 p * of_real (w1 p)) p c0)
      + (\<Sum>p\<leftarrow>pixels F1. data_sum g B (pixel_value F2 p * of_real (w2 p)) p c0)"
      by (simp add: data_sum_add sum_list_addf)
    finally show ?thesis by simp
  qed
  have weight: "(\<Sum>p\<leftarrow>pixels F1. weight_sum g B (w1 p) p c0)
      + (\<Sum>p\<leftarrow>pixels F1. weight_sum g B (w2 p) p c0)
      = (\<Sum>p\<leftarrow>pixels F1. weight_sum g B (w1 p + w2 p) p c0)" for c0
    by (simp add: weight_sum_add sum_list_addf)
  show ?thesis
    unfolding G spec_backproject_premultiplied_def insert_pixel_premultiplied_eq
      B_def [symmetric] px
    by (simp add: foldl_insert_pixel pixel_weight_def sum_weights_def add.assoc data weight)
qed

subsection \<open>Symmetrisation\<close>

text \<open>A rotation with integer entries takes grid points to grid points.\<close>

lemma rotate_of_int_mat: "rotate_voxel (of_int_mat M) v = lattice_point (turn M v)"
  by (cases M rule: prod_cases3; cases v)
     (auto simp add: rotate_voxel_def of_int_mat_def mat_vec_def turn_def imat_vec_def lattice_point_def
        split: prod.splits)

lemma turn_mul: "turn (imat_mul M N) v = turn M (turn N v)"
  by (cases v) (auto simp add: turn_def imat_mul_def imat_vec_def algebra_simps split: prod.splits)

lemma turn_identity: "turn imat_identity v = v"
  by (cases v) (simp add: turn_def imat_identity_def imat_vec_def)

lemma turn_neg: "turn M (neg v) = neg (turn M v)"
  by (cases v) (auto simp add: turn_def neg_def imat_vec_def algebra_simps split: prod.splits)

lemma inside_neg: "inside r (neg v) = inside r v"
  by (cases v) (simp add: inside_def neg_def)

lemma neg_neg: "neg (neg v) = v"
  by (cases v) (simp add: neg_def)

lemma inside_turn:
  assumes "orthogonal M"
  shows "inside r (turn M v) = inside r v"
proof -
  obtain a b c d e f g h i where M: "M = ((a, b, c), (d, e, f), (g, h, i))"
    by (metis prod_cases3)
  obtain kp ip jp where v: "v = (kp, ip, jp)" by (cases v)
  from assms have o: "a * a + d * d + g * g = 1" "a * b + d * e + g * h = 0" "a * c + d * f + g * i = 0"
    "b * b + e * e + h * h = 1" "b * c + e * f + h * i = 0" "c * c + f * f + i * i = 1"
    by (simp_all add: orthogonal_def M imat_mul_def imat_transpose_def imat_identity_def)
  have "(g * jp + h * ip + i * kp) * (g * jp + h * ip + i * kp)
      + (d * jp + e * ip + f * kp) * (d * jp + e * ip + f * kp)
      + (a * jp + b * ip + c * kp) * (a * jp + b * ip + c * kp)
      = (a * a + d * d + g * g) * (jp * jp) + (b * b + e * e + h * h) * (ip * ip)
        + (c * c + f * f + i * i) * (kp * kp)
        + 2 * (a * b + d * e + g * h) * (jp * ip) + 2 * (a * c + d * f + g * i) * (jp * kp)
        + 2 * (b * c + e * f + h * i) * (ip * kp)"
    by (simp add: algebra_simps)
  also have "\<dots> = kp * kp + ip * ip + jp * jp"
    by (simp only: o)
  finally show ?thesis
    by (simp add: M v inside_def turn_def imat_vec_def)
qed

text \<open>
  At a grid point the trilinear interpolation is the lookup, so a symmetrisation by
  such rotations sums the lookups over the orbit of the voxel.
\<close>

lemma lookup_data_eq: "lookup_data D = lookup cnj D"
  by (auto simp add: lookup_data_def lookup_def neg_def fun_eq_iff)

lemma lookup_weight_eq: "lookup_weight W = lookup (\<lambda>w. w) W"
  by (auto simp add: lookup_weight_def lookup_def neg_def fun_eq_iff)

lemma interpolate_data_eq: "interpolate_data D = interpolate cnj D"
  by (simp add: interpolate_data_def interpolate_def lookup_data_eq scaleR_conv_of_real fun_eq_iff)

lemma interpolate_weight_eq: "interpolate_weight W = interpolate (\<lambda>w. w) W"
  by (simp add: interpolate_weight_def interpolate_def lookup_weight_eq fun_eq_iff)

lemma symmetrise_sym1:
  "symmetrise S (D, W) rmax2 = (sym1 cnj S rmax2 D, sym1 (\<lambda>w. w) S rmax2 W)"
  by (auto simp add: symmetrise_def sym1_def interpolate_data_eq interpolate_weight_eq fun_eq_iff)

lemma interpolate_lattice: "interpolate cj G (lattice_point v) = lookup cj G v"
  by (cases v) (simp add: interpolate_def lattice_point_def trilinear_targets_def)

lemma lookup_stored: "stored v \<Longrightarrow> lookup cj G v = G v"
  by (cases v) (simp add: lookup_def stored_def)

lemma sym1_orbit:
  assumes "stored v" "inside rmax2 v"
  shows "sym1 cj (map of_int_mat Sz) rmax2 G v = orbit_sum cj G (imat_identity # Sz) v"
  using assms
  by (simp add: sym1_def orbit_sum_def turn_identity lookup_stored rotate_of_int_mat
      interpolate_lattice comp_def)

lemma sym1_outside:
  "\<not> (stored v \<and> inside rmax2 v) \<Longrightarrow> sym1 cj S rmax2 G v = G v"
  by (auto simp add: sym1_def)

lemma orbit_sum_mset:
  assumes "mset Ms = mset Ns"
  shows "orbit_sum cj G Ms v = orbit_sum cj G Ns v"
proof -
  have "orbit_sum cj G Ms v = sum_mset (image_mset (\<lambda>M. lookup cj G (turn M v)) (mset Ms))"
    by (simp add: orbit_sum_def flip: sum_mset_sum_list)
  also have "\<dots> = sum_mset (image_mset (\<lambda>M. lookup cj G (turn M v)) (mset Ns))"
    by (simp only: assms)
  also have "\<dots> = orbit_sum cj G Ns v"
    by (simp add: orbit_sum_def flip: sum_mset_sum_list)
  finally show ?thesis .
qed

lemma sum_list_const: "(\<Sum>x\<leftarrow>xs. c) = real (length xs) *\<^sub>R (c :: 'a::real_vector)"
  by (induction xs) (simp_all add: scaleR_add_left)

lemma orthogonal_identity: "orthogonal imat_identity"
  by (simp add: orthogonal_def imat_identity_def imat_transpose_def imat_mul_def)

lemma sym1_twice:
  fixes G :: "('a::real_vector) grid"
  assumes add: "\<And>a b. cj (a + b) = cj a + cj b"
    and invol: "\<And>a. cj (cj a) = a"
    and orth: "\<forall>M \<in> set Sz. orthogonal M"
    and closed: "\<forall>N \<in> set (imat_identity # Sz).
        mset (map (\<lambda>M. imat_mul M N) (imat_identity # Sz)) = mset (imat_identity # Sz)"
    and plane: "\<forall>kp ip. G (- kp, - ip, 0) = cj (G (kp, ip, 0))"
    and v: "stored v" "inside rmax2 v"
  shows "sym1 cj (map of_int_mat Sz) rmax2 (sym1 cj (map of_int_mat Sz) rmax2 G) v
       = real (length Sz + 1) *\<^sub>R sym1 cj (map of_int_mat Sz) rmax2 G v"
proof -
  define Gs where "Gs = imat_identity # Sz"
  define G1 where "G1 = sym1 cj (map of_int_mat Sz) rmax2 G"
  have orthG: "orthogonal N" if "N \<in> set Gs" for N
    using that orth orthogonal_identity by (auto simp add: Gs_def)
  have closedG: "mset (map (\<lambda>M. imat_mul M N) Gs) = mset Gs" if "N \<in> set Gs" for N
    using closed that unfolding Gs_def by blast
  have cj0: "cj 0 = 0"
    using add [of 0 0] by simp
  have cj_sum: "cj (sum_list xs) = sum_list (map cj xs)" for xs
    by (induction xs) (simp_all add: cj0 add)
  have herm: "lookup cj G (neg u) = cj (lookup cj G u)" for u
  proof -
    obtain k i j where u: "u = (k, i, j)" by (cases u)
    consider "j < 0" | "j = 0" | "0 < j" by linarith
    then show ?thesis
    proof cases
      case 1
      then show ?thesis by (simp add: u lookup_def neg_def invol)
    next
      case 2
      then show ?thesis using plane by (simp add: u lookup_def neg_def)
    next
      case 3
      then show ?thesis by (simp add: u lookup_def neg_def)
    qed
  qed
  have orbit_neg: "orbit_sum cj G Ms (neg u) = cj (orbit_sum cj G Ms u)" for Ms u
    by (simp add: orbit_sum_def turn_neg herm cj_sum comp_def)
  have G1_in: "G1 u = orbit_sum cj G Gs u" if "stored u" "inside rmax2 u" for u
    unfolding G1_def Gs_def using that by (rule sym1_orbit)
  have look: "lookup cj G1 u = orbit_sum cj G Gs u" if "inside rmax2 u" for u
  proof (cases "snd (snd u) < 0")
    case True
    then have "stored (neg u)"
      by (cases u) (simp add: stored_def neg_def)
    moreover have "inside rmax2 (neg u)"
      using that by (simp only: inside_neg)
    ultimately have "G1 (neg u) = orbit_sum cj G Gs (neg u)"
      by (rule G1_in)
    then show ?thesis
      using True by (simp add: lookup_def orbit_neg invol)
  next
    case False
    then have "stored u"
      by (cases u) (simp add: stored_def)
    then have "G1 u = orbit_sum cj G Gs u"
      using that by (rule G1_in)
    then show ?thesis
      using False by (simp add: lookup_def)
  qed
  have inner: "orbit_sum cj G Gs (turn N v) = orbit_sum cj G Gs v" if "N \<in> set Gs" for N
  proof -
    have "orbit_sum cj G Gs (turn N v) = orbit_sum cj G (map (\<lambda>M. imat_mul M N) Gs) v"
      by (simp add: orbit_sum_def turn_mul comp_def)
    also have "\<dots> = orbit_sum cj G Gs v"
      using that by (intro orbit_sum_mset closedG)
    finally show ?thesis .
  qed
  have "sym1 cj (map of_int_mat Sz) rmax2 G1 v = orbit_sum cj G1 Gs v"
    unfolding Gs_def using v by (rule sym1_orbit)
  also have "\<dots> = (\<Sum>N\<leftarrow>Gs. orbit_sum cj G Gs (turn N v))"
    unfolding orbit_sum_def [of cj G1]
    by (intro arg_cong [where f = sum_list] map_cong refl look)
       (simp add: inside_turn orthG v)
  also have "\<dots> = (\<Sum>N\<leftarrow>Gs. orbit_sum cj G Gs v)"
    by (intro arg_cong [where f = sum_list] map_cong refl inner)
  also have "\<dots> = real (length Gs) *\<^sub>R orbit_sum cj G Gs v"
    by (rule sum_list_const)
  also have "\<dots> = real (length Sz + 1) *\<^sub>R G1 v"
    using v by (simp add: G1_in Gs_def)
  finally show ?thesis
    by (simp only: G1_def)
qed

lemma symmetrise_parts:
  "fst (symmetrise S G r) = sym1 cnj S r (fst G)"
  "snd (symmetrise S G r) = sym1 (\<lambda>w. w) S r (snd G)"
  by (cases G, simp add: symmetrise_sym1)+

lemma symmetrise_fst:
  "fst (symmetrise S G r) v =
   (if S \<noteq> [] \<and> stored v \<and> inside r v
    then fst G v + (\<Sum>R\<leftarrow>S. interpolate_data (fst G) (rotate_voxel R v)) else fst G v)"
  by (cases G) (simp add: symmetrise_def)

lemma symmetrise_snd:
  "snd (symmetrise S G r) v =
   (if S \<noteq> [] \<and> stored v \<and> inside r v
    then snd G v + (\<Sum>R\<leftarrow>S. interpolate_weight (snd G) (rotate_voxel R v)) else snd G v)"
  by (cases G) (simp add: symmetrise_def)

text \<open>
  The list \<open>c3\<close> is a point group: with the identity it is closed under the product, and
  its members are rotations. The grids with a single value at the origin are what one
  insertion of a one-pixel image leaves in empty grids; their plane \<open>jp = 0\<close> is
  Hermitian and they are zero outside the radius \<open>rmax2 = 1\<close>.
\<close>

lemma c3_point_group:
  "mat_mul third_turn_z third_turn_z = two_thirds_turn_z"
  "mat_mul third_turn_z two_thirds_turn_z = mat_identity"
  "mat_mul two_thirds_turn_z third_turn_z = mat_identity"
  "mat_mul two_thirds_turn_z two_thirds_turn_z = third_turn_z"
  "mat_mul (mat_transpose third_turn_z) third_turn_z = mat_identity"
  "mat_mul (mat_transpose two_thirds_turn_z) two_thirds_turn_z = mat_identity"
  "det3 third_turn_z = 1" "det3 two_thirds_turn_z = 1"
  by (simp_all add: mat_mul_def mat_transpose_def third_turn_z_def two_thirds_turn_z_def
      mat_identity_def det3_def field_simps)

lemma origin_grids_inserted:
  "spec_backproject unit_geometry (origin_pixel 1) mat_identity False None ((\<lambda>v. 0), (\<lambda>v. 0))
   = (origin_data, origin_weight)"
  by (auto simp add: spec_backproject_def insert_pixel_def unit_geometry_def origin_pixel_def
      mat_identity_def mat_vec_def trilinear_targets_def add_at_def inside_def
      TRILINEAR_def NEAREST_NEIGHBOUR_def Let_def origin_data_def origin_weight_def fun_eq_iff)

lemma origin_grids:
  "origin_data (- kp, - ip, 0) = cnj (origin_data (kp, ip, 0))"
  "origin_weight (- kp, - ip, 0) = origin_weight (kp, ip, 0)"
  "\<not> (stored v \<and> inside 1 v) \<Longrightarrow> origin_data v = 0 \<and> origin_weight v = 0"
  by (auto simp add: origin_data_def origin_weight_def stored_def inside_def)

text \<open>
  The list \<open>c4\<close> is a point group of rotations with integer entries. The grids with a
  single value at \<open>(1, 1, 0)\<close> are what one insertion of a one-pixel image leaves in
  empty grids; they are zero outside the radius \<open>rmax2 = 4\<close>, and their plane \<open>jp = 0\<close>
  is not Hermitian. The header says so of the grids after the insertions: "Because the
  interpolations are numerical, hermitian symmetry may be broken", and the reconstructor
  of the spec symmetrises before it enforces the Hermitian symmetry.
\<close>

lemma c4_point_group:
  "\<forall>M \<in> set c4. orthogonal M"
  "\<forall>N \<in> set (imat_identity # c4).
     mset (map (\<lambda>M. imat_mul M N) (imat_identity # c4)) = mset (imat_identity # c4)"
  by (simp_all add: c4_def quarter_turn_z_def half_turn_z_def three_quarter_turn_z_def
      orthogonal_def imat_mul_def imat_transpose_def imat_identity_def)

lemma sqrt2_le: "sqrt 2 \<le> 2"
proof -
  have "sqrt 2 \<le> sqrt 4" by (simp only: real_sqrt_le_iff)
  moreover have "sqrt 4 = 2" using real_sqrt_abs [of 2] by simp
  ultimately show ?thesis by simp
qed

lemma corner_grids_inserted:
  "spec_backproject wide_geometry (diagonal_pixel 1) quarter_turn_y False None
     ((\<lambda>v. 0), (\<lambda>v. 0))
   = (corner_data, corner_weight)"
  using sqrt2_le
  by (auto simp add: spec_backproject_def insert_pixel_def wide_geometry_def diagonal_pixel_def
      quarter_turn_y_def mat_vec_def trilinear_targets_def add_at_def inside_def
      TRILINEAR_def NEAREST_NEIGHBOUR_def Let_def corner_data_def corner_weight_def fun_eq_iff
      not_less)

lemma corner_grids:
  "corner_data (- 1, - 1, 0) \<noteq> cnj (corner_data (1, 1, 0))"
  "corner_weight (- 1, - 1, 0) \<noteq> corner_weight (1, 1, 0)"
  "\<not> (stored v \<and> inside 4 v) \<Longrightarrow> corner_data v = 0 \<and> corner_weight v = 0"
  by (auto simp add: corner_data_def corner_weight_def stored_def inside_def)

text \<open>The values of the grids of the two examples after one and after two symmetrisations.\<close>

lemma sqrt3_bounds: "1 < sqrt 3" "sqrt 3 < 2"
proof -
  have "sqrt 1 < sqrt 3" by (simp only: real_sqrt_less_iff)
  then show "1 < sqrt 3" by simp
  have "sqrt 3 < sqrt 4" by (simp only: real_sqrt_less_iff)
  moreover have "sqrt 4 = 2" using real_sqrt_abs [of 2] by simp
  ultimately show "sqrt 3 < 2" by simp
qed

lemma floor_half_sqrt3: "\<lfloor>sqrt 3 / 2\<rfloor> = 0" "\<lfloor>- (sqrt 3 / 2)\<rfloor> = - 1"
  using sqrt3_bounds by (simp_all add: floor_eq_iff)

lemma floor_half: "\<lfloor>- (1 / 2) :: real\<rfloor> = - 1" "\<lfloor>1 / 2 :: real\<rfloor> = 0"
  by (simp_all add: floor_eq_iff)

lemma floor_minus_one_real: "\<lfloor>- 1 :: real\<rfloor> = - 1"
  using floor_of_int [of "- 1", where ?'a = real] by simp

lemmas c3_eval = floor_half_sqrt3 floor_half floor_minus_one_real stored_def inside_def
  interpolate_weight_def lookup_weight_def interpolate_data_def lookup_data_def
  trilinear_targets_def rotate_voxel_def mat_vec_def
  c3_def third_turn_z_def two_thirds_turn_z_def Let_def

lemma c3_once_weight:
  "snd (symmetrise c3 (origin_data, origin_weight) 1) (0, 0, 0) = 3"
  "snd (symmetrise c3 (origin_data, origin_weight) 1) (0, 0, 1) = (2 - sqrt 3) / 2"
  "snd (symmetrise c3 (origin_data, origin_weight) 1) (0, 1, 0) = (2 - sqrt 3) / 2"
  "snd (symmetrise c3 (origin_data, origin_weight) 1) (0, - 1, 0) = (2 - sqrt 3) / 2"
  "snd (symmetrise c3 (origin_data, origin_weight) 1) (0, 1, 1) = 0"
  "snd (symmetrise c3 (origin_data, origin_weight) 1) (0, - 1, 1) = 0"
  by (simp_all add: symmetrise_snd c3_eval origin_weight_def field_simps)

lemma c3_twice_weight:
  "snd (symmetrise c3 (symmetrise c3 (origin_data, origin_weight) 1) 1) (0, 0, 1)
   = 5 * (2 - sqrt 3) / 2"
proof -
  define G1 where "G1 = symmetrise c3 (origin_data, origin_weight) 1"
  note vals = c3_once_weight [folded G1_def]
  have sq: "sqrt 3 * sqrt 3 = 3" by simp
  show ?thesis
    unfolding G1_def [symmetric]
    by (simp add: symmetrise_snd c3_eval vals field_simps sq)
qed

lemma c3_once_data:
  "fst (symmetrise c3 (origin_data, origin_weight) 1) (0, 0, 0) = 3"
  "fst (symmetrise c3 (origin_data, origin_weight) 1) (0, 0, 1) = of_real ((2 - sqrt 3) / 2)"
  "fst (symmetrise c3 (origin_data, origin_weight) 1) (0, 1, 0) = of_real ((2 - sqrt 3) / 2)"
  "fst (symmetrise c3 (origin_data, origin_weight) 1) (0, - 1, 0) = of_real ((2 - sqrt 3) / 2)"
  "fst (symmetrise c3 (origin_data, origin_weight) 1) (0, 1, 1) = 0"
  "fst (symmetrise c3 (origin_data, origin_weight) 1) (0, - 1, 1) = 0"
  by (simp_all add: symmetrise_fst c3_eval origin_data_def complex_eq_iff field_simps)

lemma c3_twice_data:
  "fst (symmetrise c3 (symmetrise c3 (origin_data, origin_weight) 1) 1) (0, 0, 1)
   = of_real (5 * (2 - sqrt 3) / 2)"
proof -
  define G1 where "G1 = symmetrise c3 (origin_data, origin_weight) 1"
  note vals = c3_once_data [folded G1_def]
  have sq: "sqrt 3 * sqrt 3 = 3" by simp
  show ?thesis
    unfolding G1_def [symmetric]
    by (simp add: symmetrise_fst c3_eval vals complex_eq_iff field_simps sq)
qed

lemmas c4_eval = orbit_sum_def turn_def imat_vec_def lookup_def neg_def imat_identity_def
  stored_def inside_def c4_def quarter_turn_z_def half_turn_z_def three_quarter_turn_z_def

lemma sym1_c4:
  "stored v \<Longrightarrow> inside 4 v \<Longrightarrow>
   sym1 cj (map of_int_mat c4) 4 G v = orbit_sum cj G (imat_identity # c4) v"
  by (rule sym1_orbit)

lemma c4_once:
  "fst (symmetrise (map of_int_mat c4) (corner_data, corner_weight) 4) (1, 0, 1) = 1"
  "fst (symmetrise (map of_int_mat c4) (corner_data, corner_weight) 4) (1, 1, 0) = 1"
  "fst (symmetrise (map of_int_mat c4) (corner_data, corner_weight) 4) (- 1, 0, 1) = 0"
  "fst (symmetrise (map of_int_mat c4) (corner_data, corner_weight) 4) (1, - 1, 0) = 1"
  "snd (symmetrise (map of_int_mat c4) (corner_data, corner_weight) 4) (1, 0, 1) = 1"
  "snd (symmetrise (map of_int_mat c4) (corner_data, corner_weight) 4) (1, 1, 0) = 1"
  "snd (symmetrise (map of_int_mat c4) (corner_data, corner_weight) 4) (- 1, 0, 1) = 0"
  "snd (symmetrise (map of_int_mat c4) (corner_data, corner_weight) 4) (1, - 1, 0) = 1"
  by (simp_all add: symmetrise_parts sym1_c4 stored_def inside_def)
     (simp_all add: c4_eval corner_data_def corner_weight_def)

lemma c4_twice:
  "fst (symmetrise (map of_int_mat c4)
     (symmetrise (map of_int_mat c4) (corner_data, corner_weight) 4) 4) (1, 0, 1) = 3"
  "snd (symmetrise (map of_int_mat c4)
     (symmetrise (map of_int_mat c4) (corner_data, corner_weight) 4) 4) (1, 0, 1) = 3"
proof -
  define G1 where "G1 = symmetrise (map of_int_mat c4) (corner_data, corner_weight) 4"
  note vals = c4_once [folded G1_def]
  have "fst (symmetrise (map of_int_mat c4) G1 4) (1, 0, 1) = 3"
    by (simp add: symmetrise_parts sym1_c4 stored_def inside_def)
       (simp add: c4_eval vals)
  moreover have "snd (symmetrise (map of_int_mat c4) G1 4) (1, 0, 1) = 3"
    by (simp add: symmetrise_parts sym1_c4 stored_def inside_def)
       (simp add: c4_eval vals)
  ultimately show
    "fst (symmetrise (map of_int_mat c4)
       (symmetrise (map of_int_mat c4) (corner_data, corner_weight) 4) 4) (1, 0, 1) = 3"
    "snd (symmetrise (map of_int_mat c4)
       (symmetrise (map of_int_mat c4) (corner_data, corner_weight) 4) 4) (1, 0, 1) = 3"
    by (simp_all only: G1_def)
qed

text \<open>
  C4, as the claim states it, fails, for point groups and for grids as the insertions
  leave them.

  The point group \<open>c3\<close>, on the grids with the value 1 at the origin, with \<open>rmax2 = 1\<close>.
  A rotation by a third of a turn takes the voxel \<open>(0, 0, 1)\<close> to a point between the
  grid points, where the interpolation reads a share \<open>(2 - \<surd>3) / 4\<close> of the origin. After
  one symmetrisation the voxel holds \<open>(2 - \<surd>3) / 2\<close>, in the data grid and in the weight
  grid; the second symmetrisation interpolates the interpolated grid, and the voxel
  holds \<open>5 (2 - \<surd>3) / 2\<close>, not \<open>3 (2 - \<surd>3) / 2\<close>.

  The point group \<open>c4\<close>, whose rotations take grid points to grid points, on the grids
  with the value 1 at \<open>(1, 1, 0)\<close>, whose plane \<open>jp = 0\<close> is not Hermitian, with
  \<open>rmax2 = 4\<close>. After one symmetrisation the voxel \<open>(1, 0, 1)\<close> holds 1, after two it
  holds 3, not 4: the half turn takes it to \<open>(1, 0, -1)\<close>, which is read at the partner
  \<open>(-1, 0, 1)\<close>, whose rotations reach the plane at \<open>(-1, 1, 0)\<close> and \<open>(-1, -1, 0)\<close>, not
  at \<open>(1, 1, 0)\<close> and \<open>(1, -1, 0)\<close>.
\<close>

theorem symmetrise_twice_counterexample:
  "fst (symmetrise c3 (symmetrise c3 (origin_data, origin_weight) 1) 1) (0, 0, 1)
     = of_real (5 * (2 - sqrt 3) / 2) \<and>
   fst (scale_grids (length c3 + 1) (symmetrise c3 (origin_data, origin_weight) 1)) (0, 0, 1)
     = of_real (3 * (2 - sqrt 3) / 2) \<and>
   snd (symmetrise c3 (symmetrise c3 (origin_data, origin_weight) 1) 1) (0, 0, 1)
     = 5 * (2 - sqrt 3) / 2 \<and>
   snd (scale_grids (length c3 + 1) (symmetrise c3 (origin_data, origin_weight) 1)) (0, 0, 1)
     = 3 * (2 - sqrt 3) / 2 \<and>
   symmetrise c3 (symmetrise c3 (origin_data, origin_weight) 1) 1
     \<noteq> scale_grids (length c3 + 1) (symmetrise c3 (origin_data, origin_weight) 1) \<and>
   fst (symmetrise (map of_int_mat c4)
     (symmetrise (map of_int_mat c4) (corner_data, corner_weight) 4) 4) (1, 0, 1) = 3 \<and>
   fst (scale_grids (length (map of_int_mat c4) + 1)
     (symmetrise (map of_int_mat c4) (corner_data, corner_weight) 4)) (1, 0, 1) = 4 \<and>
   snd (symmetrise (map of_int_mat c4)
     (symmetrise (map of_int_mat c4) (corner_data, corner_weight) 4) 4) (1, 0, 1) = 3 \<and>
   snd (scale_grids (length (map of_int_mat c4) + 1)
     (symmetrise (map of_int_mat c4) (corner_data, corner_weight) 4)) (1, 0, 1) = 4 \<and>
   symmetrise (map of_int_mat c4) (symmetrise (map of_int_mat c4) (corner_data, corner_weight) 4) 4
     \<noteq> scale_grids (length (map of_int_mat c4) + 1)
         (symmetrise (map of_int_mat c4) (corner_data, corner_weight) 4)"
proof -
  have scaled: "fst (scale_grids n G) v = of_nat n * fst G v"
    "snd (scale_grids n G) v = of_nat n * snd G v" for n G v
    by (cases G, simp add: scale_grids_def)+
  have len: "length c3 + 1 = 3" "length (map of_int_mat c4) + 1 = 4"
    by (simp_all add: c3_def c4_def)
  have c3_scaled_data:
    "fst (scale_grids (length c3 + 1) (symmetrise c3 (origin_data, origin_weight) 1)) (0, 0, 1)
     = of_real (3 * (2 - sqrt 3) / 2)"
    by (simp only: len scaled c3_once_data) (simp add: complex_eq_iff)
  have c3_scaled_weight:
    "snd (scale_grids (length c3 + 1) (symmetrise c3 (origin_data, origin_weight) 1)) (0, 0, 1)
     = 3 * (2 - sqrt 3) / 2"
    by (simp only: len scaled c3_once_weight)
  have ne: "5 * (2 - sqrt 3) / 2 \<noteq> 3 * (2 - sqrt 3) / 2"
    using sqrt3_bounds by simp
  have c3_differ: "symmetrise c3 (symmetrise c3 (origin_data, origin_weight) 1) 1
     \<noteq> scale_grids (length c3 + 1) (symmetrise c3 (origin_data, origin_weight) 1)"
  proof
    assume "symmetrise c3 (symmetrise c3 (origin_data, origin_weight) 1) 1
      = scale_grids (length c3 + 1) (symmetrise c3 (origin_data, origin_weight) 1)"
    then have "snd (symmetrise c3 (symmetrise c3 (origin_data, origin_weight) 1) 1) (0, 0, 1)
      = snd (scale_grids (length c3 + 1) (symmetrise c3 (origin_data, origin_weight) 1)) (0, 0, 1)"
      by (simp only:)
    with ne show False
      by (simp only: c3_twice_weight c3_scaled_weight)
  qed
  have c4_scaled_data:
    "fst (scale_grids (length (map of_int_mat c4) + 1)
       (symmetrise (map of_int_mat c4) (corner_data, corner_weight) 4)) (1, 0, 1) = 4"
    by (simp only: len scaled c4_once) simp
  have c4_scaled_weight:
    "snd (scale_grids (length (map of_int_mat c4) + 1)
       (symmetrise (map of_int_mat c4) (corner_data, corner_weight) 4)) (1, 0, 1) = 4"
    by (simp only: len scaled c4_once)
  have c4_differ: "symmetrise (map of_int_mat c4)
       (symmetrise (map of_int_mat c4) (corner_data, corner_weight) 4) 4
     \<noteq> scale_grids (length (map of_int_mat c4) + 1)
         (symmetrise (map of_int_mat c4) (corner_data, corner_weight) 4)"
  proof
    assume "symmetrise (map of_int_mat c4)
       (symmetrise (map of_int_mat c4) (corner_data, corner_weight) 4) 4
     = scale_grids (length (map of_int_mat c4) + 1)
         (symmetrise (map of_int_mat c4) (corner_data, corner_weight) 4)"
    then have "snd (symmetrise (map of_int_mat c4)
         (symmetrise (map of_int_mat c4) (corner_data, corner_weight) 4) 4) (1, 0, 1)
      = snd (scale_grids (length (map of_int_mat c4) + 1)
         (symmetrise (map of_int_mat c4) (corner_data, corner_weight) 4)) (1, 0, 1)"
      by (simp only:)
    then show False
      by (simp only: c4_twice c4_scaled_weight)
  qed
  show ?thesis
    by (intro conjI c3_twice_data c3_scaled_data c3_twice_weight c3_scaled_weight c3_differ
        c4_twice c4_scaled_data c4_scaled_weight c4_differ)
qed

text \<open>
  C4, amended. Let \<open>S\<close> be a point group, that is, a list of rotations (orthogonal
  matrices) that together with the identity is closed under composition (multiplying
  the list on the right by any of its members permutes it), and let the grids be zero
  at every voxel that is not inside \<open>rmax2\<close> with \<open>jp \<ge> 0\<close>, as the data model has them.
  Let moreover the rotations of \<open>S\<close> have integer entries (they map grid points to grid
  points) and the plane \<open>jp = 0\<close> of the grids be Hermitian:
  \<open>D(-kp,-ip,0) = conj(D(kp,ip,0))\<close> and \<open>W(-kp,-ip,0) = W(kp,ip,0)\<close>. Then applying
  \<open>symmetrise\<close> twice leaves the grids in the state that applying it once and multiplying
  the grids by \<open>|S| + 1\<close> leaves them in.
\<close>

theorem symmetrise_twice_group:
  assumes "\<forall>M \<in> set Sz. orthogonal M"
    and "\<forall>N \<in> set (imat_identity # Sz).
        mset (map (\<lambda>M. imat_mul M N) (imat_identity # Sz)) = mset (imat_identity # Sz)"
    and "\<forall>v. \<not> (stored v \<and> inside rmax2 v) \<longrightarrow> D v = 0 \<and> W v = 0"
    and "\<forall>kp ip. D (- kp, - ip, 0) = cnj (D (kp, ip, 0)) \<and> W (- kp, - ip, 0) = W (kp, ip, 0)"
  shows "symmetrise (map of_int_mat Sz) (symmetrise (map of_int_mat Sz) (D, W) rmax2) rmax2
       = scale_grids (length (map of_int_mat Sz) + 1)
           (symmetrise (map of_int_mat Sz) (D, W) rmax2)"
proof -
  have planeD: "\<forall>kp ip. D (- kp, - ip, 0) = cnj (D (kp, ip, 0))"
    and planeW: "\<forall>kp ip. W (- kp, - ip, 0) = W (kp, ip, 0)"
    using assms(4) by simp_all
  have data: "sym1 cnj (map of_int_mat Sz) rmax2 (sym1 cnj (map of_int_mat Sz) rmax2 D) v
       = real (length Sz + 1) *\<^sub>R sym1 cnj (map of_int_mat Sz) rmax2 D v" for v
  proof (cases "stored v \<and> inside rmax2 v")
    case True
    then have v: "stored v" "inside rmax2 v" by simp_all
    show ?thesis
      using _ _ assms(1,2) planeD v by (rule sym1_twice) simp_all
  next
    case False
    with assms(3) have "D v = 0" by blast
    with False show ?thesis by (simp add: sym1_outside)
  qed
  have weight: "sym1 (\<lambda>w. w) (map of_int_mat Sz) rmax2 (sym1 (\<lambda>w. w) (map of_int_mat Sz) rmax2 W) v
       = real (length Sz + 1) *\<^sub>R sym1 (\<lambda>w. w) (map of_int_mat Sz) rmax2 W v" for v
  proof (cases "stored v \<and> inside rmax2 v")
    case True
    then have v: "stored v" "inside rmax2 v" by simp_all
    show ?thesis
      using _ _ assms(1,2) planeW v by (rule sym1_twice) simp_all
  next
    case False
    with assms(3) have "W v = 0" by blast
    with False show ?thesis by (simp add: sym1_outside)
  qed
  show ?thesis
    by (simp add: symmetrise_sym1 scale_grids_def data weight scaleR_conv_of_real fun_eq_iff)
qed

lemma d2_point_group:
  "\<forall>M \<in> set d2. orthogonal M"
  "\<forall>N \<in> set (imat_identity # d2).
     mset (map (\<lambda>M. imat_mul M N) (imat_identity # d2)) = mset (imat_identity # d2)"
  by (simp_all add: d2_def half_turn_x_def half_turn_y_def half_turn_z_def
      orthogonal_def imat_mul_def imat_transpose_def imat_identity_def)

lemma disc_grids:
  "\<forall>v. \<not> (stored v \<and> inside 2 v) \<longrightarrow> disc_data v = 0 \<and> disc_weight v = 0"
  "\<forall>kp ip. disc_data (- kp, - ip, 0) = cnj (disc_data (kp, ip, 0)) \<and>
     disc_weight (- kp, - ip, 0) = disc_weight (kp, ip, 0)"
  by (auto simp add: disc_data_def disc_weight_def stored_def inside_def complex_eq_iff)

text \<open>
  An instance: the point group \<open>d2\<close>, on grids that are zero outside \<open>rmax2 = 2\<close> and
  have a Hermitian plane.
\<close>

theorem symmetrise_twice_group_witness:
  "symmetrise (map of_int_mat d2) (symmetrise (map of_int_mat d2) (disc_data, disc_weight) 2) 2
   = scale_grids (length (map of_int_mat d2) + 1)
       (symmetrise (map of_int_mat d2) (disc_data, disc_weight) 2)"
  using symmetrise_twice_group [OF d2_point_group disc_grids] .

end
